theory Spec2Isabelle
  imports Main "HOL-Library.Word"
begin

unbundle bit_operations_syntax

section \<open>Machine integers\<close>

type_synonym u8 = "8 word"
type_synonym u16 = "16 word"
type_synonym u32 = "32 word"
type_synonym u64 = "64 word"

section \<open>Operand descriptors (AssemblerTables.cpp)\<close>

text \<open>
  \<^verbatim>\<open>constexpr u32 mask(u32 left, u32 right)\<close>: the inclusive bit range
  \<open>[left, right]\<close> with the most significant bit numbered 0, computed on \<open>u64\<close> and
  cast to \<open>u32\<close>. The name carries a suffix because \<open>mask\<close> is a constant of HOL.
\<close>

definition mask_bits :: "nat \<Rightarrow> nat \<Rightarrow> u32" where
  "mask_bits left right =
     ucast (((push_bit (32 - left) (1 :: u64)) - 1) AND NOT ((push_bit (31 - right) (1 :: u64)) - 1))"

text \<open>
  \<^verbatim>\<open>struct OperandDesc { u32 mask; struct { u32 shift : 31; bool is_signed : 1; }; }\<close>.
  The shift amount is a count below 32 in every descriptor of the table; it is a \<open>nat\<close>
  here and the C++ shifts by it are \<open>push_bit\<close> and \<open>drop_bit\<close>.
\<close>

record OperandDesc =
  mask_v :: u32
  shift :: nat
  is_signed :: bool

definition MaxVal :: "OperandDesc \<Rightarrow> u32" where
  "MaxVal d =
     (let mask_sh = drop_bit (shift d) (mask_v d) in
      if is_signed d
      then (let mask_hibit = mask_sh AND (mask_sh XOR drop_bit 1 mask_sh) in mask_hibit - 1)
      else mask_sh)"

definition MinVal :: "OperandDesc \<Rightarrow> u32" where
  "MinVal d = (if is_signed d then NOT (MaxVal d) else 0)"

definition TruncBits :: "OperandDesc \<Rightarrow> u32" where
  "TruncBits d =
     (let mask_sh = drop_bit (shift d) (mask_v d);
          mask_lobit = mask_sh AND (mask_sh XOR push_bit 1 mask_sh)
      in mask_lobit - 1)"

definition Fits :: "OperandDesc \<Rightarrow> u32 \<Rightarrow> bool" where
  "Fits d val =
     (let mask_sh = drop_bit (shift d) (mask_v d) in
      if is_signed d
      then (let mask_hibit = mask_sh AND (mask_sh XOR drop_bit 1 mask_sh);
                mask_lobit = mask_sh AND (mask_sh XOR push_bit 1 mask_sh);
                positive_max = mask_hibit - 1;
                negative_max = NOT positive_max;
                truncate_bits = mask_lobit - 1
            in (val \<le> positive_max \<or> val \<ge> negative_max) \<and> val AND truncate_bits = 0)
      else mask_sh AND val = val)"

definition Fit :: "OperandDesc \<Rightarrow> u32 \<Rightarrow> u32" where
  "Fit d val = push_bit (shift d) val AND mask_v d"

text \<open>The operand catalogue, in the order of the table.\<close>

definition mk_desc :: "u32 \<Rightarrow> nat \<Rightarrow> bool \<Rightarrow> OperandDesc" where
  "mk_desc m s sg = \<lparr> mask_v = m, shift = s, is_signed = sg \<rparr>"

definition desc_A :: OperandDesc where "desc_A = mk_desc (mask_bits 11 15) 16 False"
definition desc_B :: OperandDesc where "desc_B = mk_desc (mask_bits 16 20) 11 False"
definition desc_BD :: OperandDesc where "desc_BD = mk_desc (mask_bits 16 29) 0 True"
definition desc_BI :: OperandDesc where "desc_BI = mk_desc (mask_bits 11 15) 16 False"
definition desc_BO :: OperandDesc where "desc_BO = mk_desc (mask_bits 6 10) 21 False"
definition desc_C :: OperandDesc where "desc_C = mk_desc (mask_bits 21 25) 6 False"
definition desc_Crba :: OperandDesc where "desc_Crba = mk_desc (mask_bits 11 15) 16 False"
definition desc_Crbb :: OperandDesc where "desc_Crbb = mk_desc (mask_bits 16 20) 11 False"
definition desc_Crbd :: OperandDesc where "desc_Crbd = mk_desc (mask_bits 6 10) 21 False"
definition desc_Crfd :: OperandDesc where "desc_Crfd = mk_desc (mask_bits 6 8) 23 False"
definition desc_Crfs :: OperandDesc where "desc_Crfs = mk_desc (mask_bits 11 13) 18 False"
definition desc_CRM :: OperandDesc where "desc_CRM = mk_desc (mask_bits 12 19) 12 False"
definition desc_D :: OperandDesc where "desc_D = mk_desc (mask_bits 6 10) 21 False"
definition desc_FM :: OperandDesc where "desc_FM = mk_desc (mask_bits 7 14) 17 False"
definition desc_I1 :: OperandDesc where "desc_I1 = mk_desc (mask_bits 16 16) 15 False"
definition desc_I2 :: OperandDesc where "desc_I2 = mk_desc (mask_bits 21 21) 10 False"
definition desc_IMM :: OperandDesc where "desc_IMM = mk_desc (mask_bits 16 19) 12 False"
definition desc_L :: OperandDesc where "desc_L = mk_desc (mask_bits 10 10) 21 False"
definition desc_LI :: OperandDesc where "desc_LI = mk_desc (mask_bits 6 29) 0 True"
definition desc_MB :: OperandDesc where "desc_MB = mk_desc (mask_bits 21 25) 6 False"
definition desc_ME :: OperandDesc where "desc_ME = mk_desc (mask_bits 26 30) 1 False"
definition desc_NB :: OperandDesc where "desc_NB = mk_desc (mask_bits 16 20) 11 False"
definition desc_Offd :: OperandDesc where "desc_Offd = mk_desc (mask_bits 16 31) 0 True"
definition desc_OffdPs :: OperandDesc where "desc_OffdPs = mk_desc (mask_bits 19 31) 0 True"
definition desc_S :: OperandDesc where "desc_S = mk_desc (mask_bits 6 10) 21 False"
definition desc_SH :: OperandDesc where "desc_SH = mk_desc (mask_bits 16 20) 11 False"
definition desc_SIMM :: OperandDesc where "desc_SIMM = mk_desc (mask_bits 16 31) 0 True"
definition desc_SPR :: OperandDesc where "desc_SPR = mk_desc (mask_bits 11 20) 11 False"
definition desc_SR :: OperandDesc where "desc_SR = mk_desc (mask_bits 12 15) 16 False"
definition desc_TO :: OperandDesc where "desc_TO = mk_desc (mask_bits 6 10) 21 False"
definition desc_TPR :: OperandDesc where "desc_TPR = mk_desc (mask_bits 11 20) 11 False"
definition desc_UIMM :: OperandDesc where "desc_UIMM = mk_desc (mask_bits 16 31) 0 False"
definition desc_W1 :: OperandDesc where "desc_W1 = mk_desc (mask_bits 17 19) 12 False"
definition desc_W2 :: OperandDesc where "desc_W2 = mk_desc (mask_bits 22 24) 7 False"

definition catalogue :: "OperandDesc list" where
  "catalogue =
     [desc_A, desc_B, desc_BD, desc_BI, desc_BO, desc_C, desc_Crba, desc_Crbb, desc_Crbd,
      desc_Crfd, desc_Crfs, desc_CRM, desc_D, desc_FM, desc_I1, desc_I2, desc_IMM, desc_L,
      desc_LI, desc_MB, desc_ME, desc_NB, desc_Offd, desc_OffdPs, desc_S, desc_SH, desc_SIMM,
      desc_SPR, desc_SR, desc_TO, desc_TPR, desc_UIMM, desc_W1, desc_W2]"

text \<open>
  The decoder of the specification (it has no counterpart in the source): mask the field
  out of the instruction word and shift it back down; for a signed descriptor, extend the
  sign from the highest bit of the shifted mask. The bits below the lowest bit of the mask
  come back as zero.
\<close>

primrec top_bit_below :: "nat \<Rightarrow> u32 \<Rightarrow> nat" where
  "top_bit_below 0 w = 0"
| "top_bit_below (Suc n) w = (if bit w n then n else top_bit_below n w)"

definition top_bit :: "u32 \<Rightarrow> nat" where
  "top_bit w = top_bit_below 32 w"

definition spec_decode :: "OperandDesc \<Rightarrow> u32 \<Rightarrow> u32" where
  "spec_decode d enc =
     (let field = drop_bit (shift d) (enc AND mask_v d) in
      if is_signed d
      then signed_take_bit (top_bit (drop_bit (shift d) (mask_v d))) field
      else field)"

section \<open>Shared types (AssemblerShared.h)\<close>

text \<open>
  The header that declares \<open>Interval\<close>, \<open>AssemblerError\<close>, \<open>Tagged\<close> and
  \<open>GekkoDirective\<close> is not among the sources; the types are taken from the way the
  sources build and read them. \<open>Tagged<A, B>\<close> is the pair \<open>A \<times> B\<close> with
  \<open>tag_of = fst\<close> and \<open>value_of = snd\<close>. Counts and positions of type \<open>size_t\<close>
  are natural numbers. The first field of \<open>Interval\<close> is \<open>begin\<close> in the source,
  a keyword here.
\<close>

record Interval =
  i_begin :: nat
  i_len :: nat

record AssemblerError =
  message :: string
  error_line :: string
  line :: nat
  col :: nat
  len :: nat

datatype GekkoDirective =
  kByte | k2byte | k4byte | k8byte | kFloat | kDouble | kLocate | kPadAlign | kAlign
  | kZeros | kSkip | kDefVar | kAscii | kAsciz

section \<open>Lexer (GekkoLexer.h, GekkoLexer.cpp)\<close>

datatype TokenType =
  kInvalid | kIdentifier | kStringLit | kHexadecimalLit | kDecimalLit | kOctalLit
  | kBinaryLit | kFloatLit | kGPR | kFPR | kCRField | kSPR | kLt | kGt | kEq | kSo
  | kEol | kEof | kDot | kColon | kComma | kLparen | kRparen | kPipe | kCaret
  | kAmpersand | kLsh | kRsh | kPlus | kMinus | kStar | kSlash | kTilde | kGrave | kAt

record AssemblerToken =
  token_type :: TokenType
  token_val :: string
  invalid_reason :: string
  invalid_region :: Interval

datatype IdentifierMatchRule = kTypical | kMnemonic | kDirective

text \<open>
  \<open>CursorPosition\<close>: the fields \<open>line\<close> and \<open>col\<close> carry a prefix, the plain names
  being fields of \<open>AssemblerError\<close>.
\<close>

record CursorPosition =
  index :: nat
  c_line :: nat
  c_col :: nat

record Lexer =
  lex_string :: string
  pos :: CursorPosition
  scan_pos :: CursorPosition
  lexed_tokens :: "(CursorPosition \<times> AssemblerToken) list"
  match_rule :: IdentifierMatchRule

definition Lexer_init :: "string \<Rightarrow> Lexer" where
  "Lexer_init str =
     \<lparr> lex_string = str,
       pos = \<lparr> index = 0, c_line = 0, c_col = 0 \<rparr>,
       scan_pos = \<lparr> index = 0, c_line = 0, c_col = 0 \<rparr>,
       lexed_tokens = [],
       match_rule = kTypical \<rparr>"

subsection \<open>Character classes\<close>

text \<open>
  The \<open><cctype>\<close> predicates in the C locale, on the character code. A \<open>char\<close> of
  the source with the high bit set is outside every class.
\<close>

definition char_code :: "char \<Rightarrow> nat" where
  "char_code c = of_char c"

definition isdigit :: "char \<Rightarrow> bool" where
  "isdigit c = (48 \<le> char_code c \<and> char_code c \<le> 57)"

definition isalpha :: "char \<Rightarrow> bool" where
  "isalpha c = ((65 \<le> char_code c \<and> char_code c \<le> 90) \<or> (97 \<le> char_code c \<and> char_code c \<le> 122))"

definition isalnum :: "char \<Rightarrow> bool" where
  "isalnum c = (isalpha c \<or> isdigit c)"

definition isxdigit :: "char \<Rightarrow> bool" where
  "isxdigit c =
     (isdigit c \<or> (65 \<le> char_code c \<and> char_code c \<le> 70) \<or> (97 \<le> char_code c \<and> char_code c \<le> 102))"

definition isspace :: "char \<Rightarrow> bool" where
  "isspace c = (char_code c = 32 \<or> (9 \<le> char_code c \<and> char_code c \<le> 13))"

definition is_octal :: "char \<Rightarrow> bool" where
  "is_octal c = (48 \<le> char_code c \<and> char_code c \<le> 55)"

definition is_binary :: "char \<Rightarrow> bool" where
  "is_binary c = (c = CHR ''0'' \<or> c = CHR ''1'')"

definition single_char_token :: "char \<Rightarrow> TokenType" where
  "single_char_token ch =
     (if ch = CHR '','' then kComma
      else if ch = CHR ''('' then kLparen
      else if ch = CHR '')'' then kRparen
      else if ch = CHR ''|'' then kPipe
      else if ch = CHR ''^'' then kCaret
      else if ch = CHR ''&'' then kAmpersand
      else if ch = CHR ''+'' then kPlus
      else if ch = CHR ''-'' then kMinus
      else if ch = CHR ''*'' then kStar
      else if ch = CHR ''/'' then kSlash
      else if ch = CHR ''~'' then kTilde
      else if ch = CHR ''@'' then kAt
      else if ch = CHR '':'' then kColon
      else if ch = CHR 0x60 then kGrave
      else if ch = CHR ''.'' then kDot
      else if ch = CHR 0x00 then kEof
      else if ch = CHR 0x0A then kEol
      else kInvalid)"

text \<open>The names of \<open>sprg_map\<close> (AssemblerTables.cpp) with their numbers.\<close>

definition sprg_map :: "(string \<times> nat) list" where
  "sprg_map =
     [(''xer'', 1), (''lr'', 8), (''ctr'', 9), (''dsisr'', 18),
      (''dar'', 19), (''dec'', 22), (''sdr1'', 25), (''srr0'', 26),
      (''srr1'', 27), (''sprg0'', 272), (''sprg1'', 273), (''sprg2'', 274),
      (''sprg3'', 275), (''ear'', 282), (''tbl'', 284), (''tbu'', 285),
      (''ibat0u'', 528), (''ibat0l'', 529), (''ibat1u'', 530), (''ibat1l'', 531),
      (''ibat2u'', 532), (''ibat2l'', 533), (''ibat3u'', 534), (''ibat3l'', 535),
      (''dbat0u'', 536), (''dbat0l'', 537), (''dbat1u'', 538), (''dbat1l'', 539),
      (''dbat2u'', 540), (''dbat2l'', 541), (''dbat3u'', 542), (''dbat3l'', 543),
      (''gqr0'', 912), (''gqr1'', 913), (''gqr2'', 914), (''gqr3'', 915),
      (''gqr4'', 916), (''gqr5'', 917), (''gqr6'', 918), (''gqr7'', 919),
      (''hid2'', 920), (''wpar'', 921), (''dma_u'', 922), (''dma_l'', 923),
      (''ummcr0'', 936), (''upmc1'', 937), (''upmc2'', 938), (''usia'', 939),
      (''ummcr1'', 940), (''upmc3'', 941), (''upmc4'', 942), (''usda'', 943),
      (''mmcr0'', 952), (''pmc1'', 953), (''pmc2'', 954), (''sia'', 955),
      (''mmcr1'', 956), (''pmc3'', 957), (''pmc4'', 958), (''sda'', 959),
      (''hid0'', 1008), (''hid1'', 1009), (''iabr'', 1010), (''dabr'', 1013),
      (''l2cr'', 1017), (''ictc'', 1019), (''thrm1'', 1020), (''thrm2'', 1021),
      (''thrm3'', 1022)]"

subsection \<open>Cursor movement\<close>

definition Peek :: "Lexer \<Rightarrow> char" where
  "Peek lx =
     (if index (scan_pos lx) \<ge> length (lex_string lx) then CHR 0x00
      else lex_string lx ! index (scan_pos lx))"

definition Step :: "Lexer \<Rightarrow> Lexer" where
  "Step lx =
     (if index (scan_pos lx) \<ge> length (lex_string lx) then lx
      else
        (let sp = scan_pos lx;
             sp' = (if Peek lx = CHR 0x0A then sp\<lparr> c_line := c_line sp + 1, c_col := 0 \<rparr>
                    else sp\<lparr> c_col := c_col sp + 1 \<rparr>)
         in lx\<lparr> scan_pos := sp'\<lparr> index := index sp + 1 \<rparr> \<rparr>))"

definition ScanStart :: "Lexer \<Rightarrow> Lexer" where
  "ScanStart lx = lx\<lparr> scan_pos := pos lx \<rparr>"

definition ScanFinish :: "Lexer \<Rightarrow> Lexer" where
  "ScanFinish lx = lx\<lparr> pos := scan_pos lx \<rparr>"

text \<open>\<open>std::string_view::substr(start, n)\<close>.\<close>

definition substr :: "string \<Rightarrow> nat \<Rightarrow> nat \<Rightarrow> string" where
  "substr s start n = take n (drop start s)"

definition ScanFinishOut :: "Lexer \<Rightarrow> string \<times> Lexer" where
  "ScanFinishOut lx =
     (let start = index (pos lx) in
      (substr (lex_string lx) start (index (scan_pos lx) - start), lx\<lparr> pos := scan_pos lx \<rparr>))"

definition IdentifierHeadExtra :: "Lexer \<Rightarrow> char \<Rightarrow> bool" where
  "IdentifierHeadExtra lx h =
     (case match_rule lx of
        kTypical \<Rightarrow> False
      | kMnemonic \<Rightarrow> False
      | kDirective \<Rightarrow> isdigit h)"

definition IdentifierExtra :: "Lexer \<Rightarrow> char \<Rightarrow> bool" where
  "IdentifierExtra lx c =
     (case match_rule lx of
        kTypical \<Rightarrow> False
      | kDirective \<Rightarrow> False
      | kMnemonic \<Rightarrow> c = CHR ''+'' \<or> c = CHR ''-'' \<or> c = CHR ''.'')"

text \<open>
  The scanning loops of the lexer all have the shape
  \<^verbatim>\<open>for (char c = Peek(); P(c); c = Step().Peek());\<close>
  with one of six conditions \<open>P\<close>. None of them holds of the character \<open>'\0'\<close> that
  \<open>Peek\<close> returns at the end of the input, which is why the loops stop.
\<close>

datatype ScanClass = ScanWs | ScanIdent | ScanHex | ScanBin | ScanOct | ScanDec

fun scan_pred :: "Lexer \<Rightarrow> ScanClass \<Rightarrow> char \<Rightarrow> bool" where
  "scan_pred lx ScanWs c = (isspace c \<and> c \<noteq> CHR 0x0A)"
| "scan_pred lx ScanIdent c = (isalnum c \<or> c = CHR ''_'' \<or> IdentifierExtra lx c)"
| "scan_pred lx ScanHex c = isxdigit c"
| "scan_pred lx ScanBin c = is_binary c"
| "scan_pred lx ScanOct c = is_octal c"
| "scan_pred lx ScanDec c = isdigit c"

function scan_loop :: "ScanClass \<Rightarrow> Lexer \<Rightarrow> Lexer" where
  "scan_loop k lx = (if scan_pred lx k (Peek lx) then scan_loop k (Step lx) else lx)"
  by pat_completeness auto
termination
proof (relation "measure (\<lambda>(k, lx). length (lex_string lx) - index (scan_pos lx))")
  show "wf (measure (\<lambda>(k, lx). length (lex_string lx) - index (scan_pos lx)))"
    by simp
next
  fix k lx
  assume "scan_pred lx k (Peek lx)"
  then have "index (scan_pos lx) < length (lex_string lx)"
    by (cases k; cases "match_rule lx")
      (auto simp add: Peek_def isspace_def isalnum_def isalpha_def isdigit_def isxdigit_def
        is_binary_def is_octal_def IdentifierExtra_def char_code_def split: if_splits)
  then show "((k, Step lx), (k, lx))
      \<in> measure (\<lambda>(k, lx). length (lex_string lx) - index (scan_pos lx))"
    by (simp add: Step_def Let_def)
qed

definition SkipWs :: "Lexer \<Rightarrow> Lexer" where
  "SkipWs lx = ScanFinish (scan_loop ScanWs (ScanStart lx))"

subsection \<open>The string-literal automaton (AssemblerTables.cpp)\<close>

record DfaNode =
  edges :: "((char \<Rightarrow> bool) \<times> nat) list"
  match_failure_reason :: "string option"

definition DfaNode_of :: "((char \<Rightarrow> bool) \<times> nat) list \<Rightarrow> string option \<Rightarrow> DfaNode" where
  "DfaNode_of es r = \<lparr> edges = es, match_failure_reason = r \<rparr>"

definition normal_t :: "char \<Rightarrow> bool" where
  "normal_t c = (c \<noteq> CHR 0x0A \<and> c \<noteq> CHR 0x22 \<and> c \<noteq> CHR 0x5C)"

definition invalid_t :: "char \<Rightarrow> bool" where
  "invalid_t c = (c = CHR 0x0A)"

definition octal_t :: "char \<Rightarrow> bool" where
  "octal_t c = (48 \<le> char_code c \<and> char_code c \<le> 55)"

definition hex_t :: "char \<Rightarrow> bool" where
  "hex_t c = isxdigit c"

definition normal_minus_octal_t :: "char \<Rightarrow> bool" where
  "normal_minus_octal_t c = (normal_t c \<and> \<not> octal_t c)"

definition normal_minus_hex_t :: "char \<Rightarrow> bool" where
  "normal_minus_hex_t c = (normal_t c \<and> \<not> hex_t c)"

definition escape_t :: "char \<Rightarrow> bool" where
  "escape_t c = (c = CHR 0x5C)"

definition sce_t :: "char \<Rightarrow> bool" where
  "sce_t c = (\<not> octal_t c \<and> c \<noteq> CHR ''x'' \<and> c \<noteq> CHR 0x0A)"

definition hexstart_t :: "char \<Rightarrow> bool" where
  "hexstart_t c = (c = CHR ''x'')"

definition quote_t :: "char \<Rightarrow> bool" where
  "quote_t c = (c = CHR 0x22)"

definition no_terminating_quote :: string where
  "no_terminating_quote = ''Invalid string: No terminating '' @ [CHR 0x22]"

definition string_dfa :: "DfaNode list" where
  "string_dfa =
     [DfaNode_of [(normal_t, 0), (invalid_t, 1), (quote_t, 2), (escape_t, 3)]
        (Some no_terminating_quote),
      DfaNode_of [] (Some no_terminating_quote),
      DfaNode_of [] None,
      DfaNode_of [(sce_t, 0), (invalid_t, 1), (octal_t, 4), (hexstart_t, 6)]
        (Some no_terminating_quote),
      DfaNode_of [(normal_minus_octal_t, 0), (invalid_t, 1), (quote_t, 2), (escape_t, 3),
                  (octal_t, 5)] (Some no_terminating_quote),
      DfaNode_of [(normal_t, 0), (invalid_t, 1), (quote_t, 2), (escape_t, 3)]
        (Some no_terminating_quote),
      DfaNode_of [(hex_t, 7)] (Some ''Invalid string: bad hex escape''),
      DfaNode_of [(normal_minus_hex_t, 0), (invalid_t, 1), (quote_t, 2), (escape_t, 3),
                  (hex_t, 7)] (Some no_terminating_quote)]"

text \<open>
  \<open>Lexer::RunDfa\<close>: the do-while loop follows the first edge whose predicate accepts the
  next character and stops at the end of the input or when no edge applies. Every edge of
  the table leads to a node of the table.
\<close>

function RunDfa_loop :: "DfaNode list \<Rightarrow> nat \<Rightarrow> Lexer \<Rightarrow> nat \<times> Lexer" where
  "RunDfa_loop dfa dfa_index lx =
     (if Peek lx = CHR 0x00 then (dfa_index, lx)
      else
        (case find (\<lambda>edge. fst edge (Peek lx)) (edges (dfa ! dfa_index)) of
           None \<Rightarrow> (dfa_index, lx)
         | Some edge \<Rightarrow> RunDfa_loop dfa (snd edge) (Step lx)))"
  by pat_completeness auto
termination
proof (relation "measure (\<lambda>(dfa, i, lx). length (lex_string lx) - index (scan_pos lx))")
  show "wf (measure (\<lambda>(dfa, i, lx). length (lex_string lx) - index (scan_pos lx)))"
    by simp
next
  fix dfa :: "DfaNode list" and dfa_index :: nat and lx :: Lexer and x2
  assume "Peek lx \<noteq> CHR 0x00"
  then have "index (scan_pos lx) < length (lex_string lx)"
    by (auto simp add: Peek_def split: if_splits)
  then show "((dfa, snd x2, Step lx), (dfa, dfa_index, lx))
      \<in> measure (\<lambda>(dfa, i, lx). length (lex_string lx) - index (scan_pos lx))"
    by (simp add: Step_def Let_def)
qed

definition RunDfa :: "DfaNode list \<Rightarrow> Lexer \<Rightarrow> string option \<times> Lexer" where
  "RunDfa dfa lx =
     (let (dfa_index, lx') = RunDfa_loop dfa 0 lx
      in (match_failure_reason (dfa ! dfa_index), lx'))"

text \<open>
  \<open>Lexer::LexStringLit\<close> returns the token type and writes the two out-parameters only
  when the automaton fails; the caller has initialised them to \<open>""\<close> and \<open>{0, 0}\<close>.
\<close>

definition LexStringLit :: "Lexer \<Rightarrow> TokenType \<times> string \<times> Interval \<times> Lexer" where
  "LexStringLit lx =
     (let string_start = index (scan_pos lx) - 1;
          (failure_reason, lx') = RunDfa string_dfa lx
      in case failure_reason of
           Some reason \<Rightarrow>
             (kInvalid, reason,
              \<lparr> i_begin = 0, i_len = index (scan_pos lx') - string_start \<rparr>, lx')
         | None \<Rightarrow> (kStringLit, '''', \<lparr> i_begin = 0, i_len = 0 \<rparr>, lx'))"

subsection \<open>Classification of identifiers\<close>

definition valid_regnum :: "string \<Rightarrow> bool" where
  "valid_regnum rn =
     (case rn of
        [d0] \<Rightarrow> isdigit d0
      | [d0, d1] \<Rightarrow>
          isdigit d0 \<and> isdigit d1 \<and>
          (d0 = CHR ''1'' \<or> d0 = CHR ''2'' \<or> (d0 = CHR ''3'' \<and> char_code d1 \<le> char_code (CHR ''2'')))
      | _ \<Rightarrow> False)"

definition ClassifyAlnum :: "Lexer \<Rightarrow> TokenType" where
  "ClassifyAlnum lx =
     (let alnum = substr (lex_string lx) (index (pos lx)) (index (scan_pos lx) - index (pos lx))
      in if take 1 alnum = ''r'' \<and> valid_regnum (drop 1 alnum) then kGPR
         else if take 1 alnum = ''f'' \<and> valid_regnum (drop 1 alnum) then kFPR
         else if length alnum = 3 \<and> take 2 alnum = ''cr''
                 \<and> char_code (alnum ! 2) \<ge> char_code (CHR ''0'') \<and> char_code (alnum ! 2) \<le> char_code (CHR ''7'')
              then kCRField
         else if alnum = ''lt'' then kLt
         else if alnum = ''gt'' then kGt
         else if alnum = ''eq'' then kEq
         else if alnum = ''so'' then kSo
         else if map_of sprg_map alnum \<noteq> None then kSPR
         else kIdentifier)"

subsection \<open>\<open>Lexer::LexSingle\<close>\<close>

definition unrecognized :: string where
  "unrecognized = ''Unrecognized character''"

definition LexSingle :: "Lexer \<Rightarrow> AssemblerToken \<times> Lexer" where
  "LexSingle lx0 =
     (let lx1 = ScanStart (SkipWs lx0);
          h = Peek lx1;
          no_reason = '''';
          no_region = \<lparr> i_begin = 0, i_len = 0 \<rparr>;
          lx2 = Step lx1;
          (tp, invalid_reason, invalid_region, lx3) =
            (if isalpha h \<or> h = CHR ''_'' \<or> IdentifierHeadExtra lx2 h then
               (let lx' = scan_loop ScanIdent lx2
                in (ClassifyAlnum lx', no_reason, no_region, lx'))
             else if h = CHR 0x22 then LexStringLit lx2
             else if h = CHR ''0'' then
               (let imm_type = Peek lx2 in
                if imm_type = CHR ''x'' then
                  (kHexadecimalLit, no_reason, no_region, scan_loop ScanHex (Step lx2))
                else if imm_type = CHR ''b'' then
                  (kBinaryLit, no_reason, no_region, scan_loop ScanBin (Step lx2))
                else if is_octal imm_type then
                  (kOctalLit, no_reason, no_region, scan_loop ScanOct lx2)
                else (kDecimalLit, no_reason, no_region, lx2))
             else if isdigit h then
               (kDecimalLit, no_reason, no_region, scan_loop ScanDec lx2)
             else if h = CHR ''<'' \<or> h = CHR ''>'' then
               (let second_ch = Peek lx2 in
                if second_ch = h then
                  ((if second_ch = CHR ''<'' then kLsh else kRsh), no_reason, no_region,
                   Step lx2)
                else (kInvalid, unrecognized, \<lparr> i_begin = 0, i_len = 1 \<rparr>, lx2))
             else
               (let token_type = single_char_token h in
                if token_type = kInvalid
                then (kInvalid, unrecognized, \<lparr> i_begin = 0, i_len = 1 \<rparr>, lx2)
                else (token_type, no_reason, no_region, lx2)));
          (val, lx4) = ScanFinishOut lx3;
          new_tok = \<lparr> token_type = tp, token_val = val, invalid_reason = invalid_reason,
                      invalid_region = invalid_region \<rparr>
      in (new_tok, SkipWs lx4))"

subsection \<open>The token buffer\<close>

definition LineNumber :: "Lexer \<Rightarrow> nat" where
  "LineNumber lx =
     (if lexed_tokens lx = [] then c_line (pos lx) else c_line (fst (hd (lexed_tokens lx))))"

definition ColNumber :: "Lexer \<Rightarrow> nat" where
  "ColNumber lx =
     (if lexed_tokens lx = [] then c_col (pos lx) else c_col (fst (hd (lexed_tokens lx))))"

text \<open>
  \<open>Lexer::CurrentLine\<close>: the first loop walks back from the character before the current
  index to the start of the line, the second walks forward past the end of it. Both read
  inside the string, the index of a cursor never exceeding its length.
\<close>

fun line_begin :: "string \<Rightarrow> nat \<Rightarrow> nat" where
  "line_begin s 0 = 0"
| "line_begin s (Suc i) = (if s ! Suc i = CHR 0x0A then Suc (Suc i) else line_begin s i)"

function line_end :: "string \<Rightarrow> nat \<Rightarrow> nat" where
  "line_end s i =
     (if i < length s then (if s ! i = CHR 0x0A then i + 1 else line_end s (i + 1)) else i)"
  by pat_completeness auto
termination
  by (relation "measure (\<lambda>(s, i). length s - i)") auto

definition CurrentLine :: "Lexer \<Rightarrow> string" where
  "CurrentLine lx =
     (let line_index =
            (if lexed_tokens lx = [] then index (pos lx) else index (fst (hd (lexed_tokens lx))));
          begin_index = line_begin (lex_string lx) (if line_index = 0 then 0 else line_index - 1);
          end_index = line_end (lex_string lx) begin_index
      in substr (lex_string lx) begin_index (end_index - begin_index))"

text \<open>
  \<open>Lookahead\<close> and \<open>LookaheadRef\<close> lex one token only when the buffer is empty and
  return the front of the buffer; they differ in returning a copy or a reference.
\<close>

definition LookaheadRef :: "Lexer \<Rightarrow> AssemblerToken \<times> Lexer" where
  "LookaheadRef lx =
     (if lexed_tokens lx = [] then
        (let pos_pre = pos lx;
             (tok, lx') = LexSingle lx;
             lx'' = lx'\<lparr> lexed_tokens := lexed_tokens lx' @ [(pos_pre, tok)] \<rparr>
         in (snd (hd (lexed_tokens lx'')), lx''))
      else (snd (hd (lexed_tokens lx)), lx))"

definition Lookahead :: "Lexer \<Rightarrow> AssemblerToken \<times> Lexer" where
  "Lookahead lx = LookaheadRef lx"

text \<open>
  \<open>Lexer::LookaheadTagRef\<close>:
  \<^verbatim>\<open>while (lexed_tokens.size() < num_fwd) { LookaheadRef(); } return lexed_tokens[num_fwd];\<close>
  The loop need not stop, so it runs on fuel: \<open>None\<close> is a loop still running when the
  fuel is gone. The access after the loop is checked against the size of the deque.
\<close>

datatype 'a lookahead_result = StillLooping | OutOfBounds | Returned 'a

fun LookaheadTagRef_loop :: "nat \<Rightarrow> nat \<Rightarrow> Lexer \<Rightarrow> Lexer option" where
  "LookaheadTagRef_loop 0 num_fwd lx = None"
| "LookaheadTagRef_loop (Suc fuel) num_fwd lx =
     (if length (lexed_tokens lx) < num_fwd
      then LookaheadTagRef_loop fuel num_fwd (snd (LookaheadRef lx))
      else Some lx)"

definition LookaheadTagRef ::
  "nat \<Rightarrow> nat \<Rightarrow> Lexer \<Rightarrow> ((CursorPosition \<times> AssemblerToken) \<times> Lexer) lookahead_result" where
  "LookaheadTagRef fuel num_fwd lx =
     (case LookaheadTagRef_loop fuel num_fwd lx of
        None \<Rightarrow> StillLooping
      | Some lx' \<Rightarrow>
          if num_fwd < length (lexed_tokens lx') then Returned (lexed_tokens lx' ! num_fwd, lx')
          else OutOfBounds)"

subsection \<open>Token values (\<open>AssemblerToken::EvalToken\<close>, \<open>eval_integral\<close>)\<close>

definition ValStr :: "AssemblerToken \<Rightarrow> string" where
  "ValStr tok =
     (case token_type tok of
        kEol \<Rightarrow> ''<EOL>''
      | kEof \<Rightarrow> ''<EOF>''
      | _ \<Rightarrow> token_val tok)"

definition convert_nib :: "char \<Rightarrow> int" where
  "convert_nib c =
     (if char_code (CHR ''a'') \<le> char_code c \<and> char_code c \<le> char_code (CHR ''f'')
      then int (char_code c) - 97 + 10
      else if char_code (CHR ''A'') \<le> char_code c \<and> char_code c \<le> char_code (CHR ''F'')
      then int (char_code c) - 65 + 10
      else int (char_code c) - 48)"

text \<open>
  The four accumulation steps of \<open>eval_integral<T>\<close> for an unsigned \<open>T\<close>: the
  arithmetic of the source is on promoted integers and the result is converted back to
  \<open>T\<close>, which is the arithmetic of the word type.
\<close>

definition hex_step :: "'a::len word \<Rightarrow> char \<Rightarrow> 'a word" where
  "hex_step acc c = push_bit 4 acc OR of_int (convert_nib c)"

definition dec_step :: "'a::len word \<Rightarrow> char \<Rightarrow> 'a word" where
  "dec_step acc c = acc * 10 + of_int (int (char_code c) - 48)"

definition oct_step :: "'a::len word \<Rightarrow> char \<Rightarrow> 'a word" where
  "oct_step acc c = push_bit 3 acc OR of_int (int (char_code c) - 48)"

definition bin_step :: "'a::len word \<Rightarrow> char \<Rightarrow> 'a word" where
  "bin_step acc c = push_bit 1 acc OR of_int (int (char_code c) - 48)"

text \<open>
  \<open>eval_integral\<close>. The binary case accumulates from the first character of the token,
  as the source does. The SPR case reads the table entry the lexer has found when it
  classified the token.
\<close>

definition eval_integral :: "TokenType \<Rightarrow> string \<Rightarrow> 'a::len word option" where
  "eval_integral tp val =
     (case tp of
        kHexadecimalLit \<Rightarrow> Some (foldl hex_step 0 (drop 2 val))
      | kDecimalLit \<Rightarrow> Some (foldl dec_step 0 val)
      | kOctalLit \<Rightarrow> Some (foldl oct_step 0 (drop 1 val))
      | kBinaryLit \<Rightarrow> Some (foldl bin_step 0 val)
      | kGPR \<Rightarrow> Some (foldl dec_step 0 (drop 1 val))
      | kFPR \<Rightarrow> Some (foldl dec_step 0 (drop 1 val))
      | kCRField \<Rightarrow> Some (foldl dec_step 0 (drop 2 val))
      | kSPR \<Rightarrow> map_option of_nat (map_of sprg_map val)
      | kLt \<Rightarrow> Some 0
      | kGt \<Rightarrow> Some 1
      | kEq \<Rightarrow> Some 2
      | kSo \<Rightarrow> Some 3
      | _ \<Rightarrow> None)"

definition EvalToken :: "AssemblerToken \<Rightarrow> 'a::len word option" where
  "EvalToken tok = eval_integral (token_type tok) (token_val tok)"

text \<open>
  Floating point is outside HOL-Library's words. The two conversions \<open>std::stof\<close> and
  \<open>std::stod\<close> are parameters of the model: they give the IEEE-754 bit pattern of the
  literal, or \<open>None\<close> where the library function throws.
\<close>

record FloatConv =
  stof :: "string \<Rightarrow> u32 option"
  stod :: "string \<Rightarrow> u64 option"

definition EvalToken_float :: "FloatConv \<Rightarrow> AssemblerToken \<Rightarrow> u32 option" where
  "EvalToken_float fc tok = (if token_type tok = kFloatLit then stof fc (token_val tok) else None)"

definition EvalToken_double :: "FloatConv \<Rightarrow> AssemblerToken \<Rightarrow> u64 option" where
  "EvalToken_double fc tok = (if token_type tok = kFloatLit then stod fc (token_val tok) else None)"

subsection \<open>\<open>ConvertStringLiteral\<close>\<close>

text \<open>
  The loops index the literal directly; a read past its end is undefined in the source
  and \<open>None\<close> here. The escape accumulators are of type \<open>char\<close> and are stored as
  \<open>u8\<close>.
\<close>

definition char_u8 :: "char \<Rightarrow> u8" where
  "char_u8 c = of_nat (char_code c)"

function octal_run :: "string \<Rightarrow> nat \<Rightarrow> u8 \<Rightarrow> (nat \<times> u8) option" where
  "octal_run literal i octal_escape =
     (if i < length literal then
        (if is_octal (literal ! i)
         then octal_run literal (i + 1) (push_bit 3 octal_escape + (char_u8 (literal ! i) - 48))
         else Some (i, octal_escape))
      else None)"
  by pat_completeness auto
termination
  by (relation "measure (\<lambda>(s, i, e). length s - i)") auto

function hex_run :: "string \<Rightarrow> nat \<Rightarrow> u8 \<Rightarrow> (nat \<times> u8) option" where
  "hex_run literal i hex_escape =
     (if i < length literal then
        (if isxdigit (literal ! i)
         then hex_run literal (i + 1) (push_bit 4 hex_escape + of_int (convert_nib (literal ! i)))
         else Some (i, hex_escape))
      else None)"
  by pat_completeness auto
termination
  by (relation "measure (\<lambda>(s, i, e). length s - i)") auto

definition simple_escape :: "char \<Rightarrow> u8" where
  "simple_escape c =
     (if c = CHR 0x27 then 0x27
      else if c = CHR 0x22 then 0x22
      else if c = CHR ''?'' then 0x3f
      else if c = CHR 0x5C then 0x5c
      else if c = CHR ''a'' then 0x07
      else if c = CHR ''b'' then 0x08
      else if c = CHR ''f'' then 0x0c
      else if c = CHR ''n'' then 0x0a
      else if c = CHR ''r'' then 0x0d
      else if c = CHR ''t'' then 0x09
      else if c = CHR ''v'' then 0x0b
      else char_u8 c)"

text \<open>
  The outer loop \<^verbatim>\<open>for (size_t i = 1; i < literal.size() - 1;)\<close>. The bound is computed
  on \<open>size_t\<close>: it wraps for an empty literal, which the lexer never produces; the model
  returns \<open>None\<close> for it.
\<close>

function ConvertStringLiteral_from :: "string \<Rightarrow> nat \<Rightarrow> u8 list \<Rightarrow> u8 list option" where
  "ConvertStringLiteral_from literal i out =
     (if literal = [] then None
      else if i < length literal - 1 then
        (if literal ! i = CHR 0x5C then
           (if is_octal (literal ! (i + 1)) then
              (case octal_run literal (i + 1) 0 of
                 None \<Rightarrow> None
               | Some (k, octal_escape) \<Rightarrow>
                   if i < k then ConvertStringLiteral_from literal k (out @ [octal_escape])
                   else None)
            else if literal ! (i + 1) = CHR ''x'' then
              (case hex_run literal (i + 2) 0 of
                 None \<Rightarrow> None
               | Some (k, hex_escape) \<Rightarrow>
                   if i < k then ConvertStringLiteral_from literal k (out @ [hex_escape])
                   else None)
            else ConvertStringLiteral_from literal (i + 2) (out @ [simple_escape (literal ! (i + 1))]))
         else ConvertStringLiteral_from literal (i + 1) (out @ [char_u8 (literal ! i)]))
      else Some out)"
  by pat_completeness auto
termination
  by (relation "measure (\<lambda>(s, i, out). length s - i)") auto

definition ConvertStringLiteral :: "string \<Rightarrow> u8 list \<Rightarrow> u8 list option" where
  "ConvertStringLiteral literal out_vec = ConvertStringLiteral_from literal 1 out_vec"

section \<open>Parser interface (GekkoParser.h, GekkoParser.cpp)\<close>

text \<open>
  The enumerators of \<open>AsmOp\<close> and \<open>Terminal\<close> share names with those of
  \<open>TokenType\<close> (the source's enums are scoped); here the operators begin with \<open>op\<close>
  and the terminals with \<open>t\<close>.
\<close>

datatype AsmOp =
  opOr | opXor | opAnd | opLsh | opRsh | opAdd | opSub | opMul | opDiv | opNeg | opNot

datatype Terminal =
  tHex | tDec | tOct | tBin | tFlt | tStr | tId | tGPR | tFPR | tSPR | tCRField
  | tLt | tGt | tEq | tSo | tDot

datatype ParenType = kNormal | kRelConv

datatype ParseAlg =
  None_alg | Op1 | NoneOrOp1 | Op1Off1 | Op2 | Op1Or2 | Op3 | Op2Or3 | Op4 | Op5 | Op1Off1Op2

record ParseInfo =
  pi_mnemonic_index :: nat
  parse_algorithm :: ParseAlg

text \<open>\<open>ParseState\<close> without its reference to the plugin, which owns it in this model.\<close>

record ParseState =
  lexer :: Lexer
  error :: "AssemblerError option"
  eof :: bool

definition ParseState_init :: "string \<Rightarrow> ParseState" where
  "ParseState_init input_str = \<lparr> lexer = Lexer_init input_str, error = None, eof = False \<rparr>"

definition EmitErrorHere :: "string \<Rightarrow> ParseState \<Rightarrow> ParseState" where
  "EmitErrorHere msg state =
     (let (cur_token, lx) = Lookahead (lexer state) in
      if token_type cur_token = kInvalid then
        state\<lparr> lexer := lx,
               error := Some \<lparr> message = invalid_reason cur_token,
                                error_line = CurrentLine lx,
                                line = LineNumber lx,
                                col = ColNumber lx + i_begin (invalid_region cur_token),
                                len = i_len (invalid_region cur_token) \<rparr> \<rparr>
      else
        state\<lparr> lexer := lx,
               error := Some \<lparr> message = msg,
                                error_line = CurrentLine lx,
                                line = LineNumber lx,
                                col = ColNumber lx,
                                len = length (token_val cur_token) \<rparr> \<rparr>)"

section \<open>Intermediate representation (GekkoIRGen.h)\<close>

record GekkoInstruction =
  mnemonic_index :: nat
  op_index :: nat
  op_count :: nat
  raw_text :: string
  line_number :: nat
  is_extended :: bool

datatype ChunkVariant =
  InstChunk "GekkoInstruction list"
  | ByteChunk "u8 list"
  | PadChunk nat

record IRBlock =
  chunks :: "ChunkVariant list"
  block_address :: u32

definition IRBlock_at :: "u32 \<Rightarrow> IRBlock" where
  "IRBlock_at address = \<lparr> chunks = [], block_address = address \<rparr>"

record GekkoIR =
  blocks :: "IRBlock list"
  operand_pool :: "(Interval \<times> u32) list"

text \<open>
  \<open>IRBlock::BlockEndAddress\<close>: \<open>std::accumulate\<close> over the chunks, starting from the
  block address; each size is converted to \<open>u32\<close> before it is added.
\<close>

definition chunk_size :: "ChunkVariant \<Rightarrow> u32" where
  "chunk_size chunk =
     (case chunk of
        InstChunk insts \<Rightarrow> of_nat (length insts * 4)
      | ByteChunk bytes \<Rightarrow> of_nat (length bytes)
      | PadChunk n \<Rightarrow> of_nat n)"

definition BlockEndAddress :: "IRBlock \<Rightarrow> u32" where
  "BlockEndAddress b = foldl (\<lambda>acc chunk. acc + chunk_size chunk) (block_address b) (chunks b)"

section \<open>IR generator (GekkoIRGen.cpp)\<close>

datatype EvalMode = RelAddrDoublePass | AbsAddrSinglePass

text \<open>
  The closures of the fixup stack, one constructor for each lambda of the source with
  the values it captures. An evaluator is the function pointer handed to
  \<open>AddBinaryEvaluator\<close> or \<open>AddUnaryEvaluator\<close>; it returns \<open>None\<close> where the C++
  operator has undefined behaviour (division by zero, a shift by 32 or more).
\<close>

datatype fixup =
  FLiteral u32
  | FSymbolResolve string bool u32 AssemblerError
  | FBinaryEvaluator "u32 \<Rightarrow> u32 \<Rightarrow> u32 option" fixup fixup
  | FUnaryEvaluator "u32 \<Rightarrow> u32 option" fixup
  | FAbsoluteAddressConv u32 fixup

text \<open>
  The directive operand stack, a variant over six vectors; the back of a vector is the
  last element of the list. The two floating-point vectors hold bit patterns.
\<close>

datatype EvalStack =
  StackU8 "u8 list"
  | StackU16 "u16 list"
  | StackU32 "u32 list"
  | StackU64 "u64 list"
  | StackFloat "u32 list"
  | StackDouble "u64 list"

record GekkoIRPlugin =
  owner :: ParseState
  owner_error :: "AssemblerError option"
  output_result :: GekkoIR
  build_inst :: GekkoInstruction
  active_var :: "string option"
  operand_scan_begin :: nat
  labels :: "string \<rightharpoonup> u32"
  constants :: "string \<rightharpoonup> u64"
  symset :: "string set"
  evaluation_mode :: EvalMode
  fixup_stack :: "fixup list"
  operand_fixups :: "fixup list"
  operand_str_start :: nat
  eval_stack :: EvalStack
  string_lit :: string
  active_directive :: GekkoDirective

text \<open>
  The constructor. \<open>active_block\<close> is a pointer to the block appended last, at every
  moment: it is \<open>last (blocks (output_result p))\<close> here. The constructor leaves
  \<open>evaluation_mode\<close>, \<open>active_directive\<close> and \<open>operand_str_start\<close> uninitialised;
  their first values are arguments. \<open>owner\<close> is null until \<open>SetOwner\<close>; the
  record holds the parse state itself, and an empty one before that call.
\<close>

definition GekkoIRPlugin_init ::
  "u32 \<Rightarrow> EvalMode \<Rightarrow> GekkoDirective \<Rightarrow> nat \<Rightarrow> GekkoIRPlugin" where
  "GekkoIRPlugin_init base_addr mode0 directive0 str0 =
     \<lparr> owner = ParseState_init [],
       owner_error = None,
       output_result = \<lparr> blocks = [IRBlock_at base_addr], operand_pool = [] \<rparr>,
       build_inst = \<lparr> mnemonic_index = 0, op_index = 0, op_count = 0, raw_text = '''',
                      line_number = 0, is_extended = False \<rparr>,
       active_var = None,
       operand_scan_begin = 0,
       labels = Map.empty,
       constants = Map.empty,
       symset = {},
       evaluation_mode = mode0,
       fixup_stack = [],
       operand_fixups = [],
       operand_str_start = str0,
       eval_stack = StackU8 [],
       string_lit = '''',
       active_directive = directive0 \<rparr>"

definition active_block :: "GekkoIRPlugin \<Rightarrow> IRBlock" where
  "active_block p = last (blocks (output_result p))"

definition set_active_block :: "IRBlock \<Rightarrow> GekkoIRPlugin \<Rightarrow> GekkoIRPlugin" where
  "set_active_block b p =
     p\<lparr> output_result := (output_result p)\<lparr> blocks := butlast (blocks (output_result p)) @ [b] \<rparr> \<rparr>"

definition plugin_error :: "string \<Rightarrow> GekkoIRPlugin \<Rightarrow> GekkoIRPlugin" where
  "plugin_error msg p = p\<lparr> owner := EmitErrorHere msg (owner p) \<rparr>"

subsection \<open>Helper functions\<close>

definition CurrentAddress :: "GekkoIRPlugin \<Rightarrow> u32" where
  "CurrentAddress p = BlockEndAddress (active_block p)"

definition LookupVar :: "GekkoIRPlugin \<Rightarrow> string \<Rightarrow> u64 option" where
  "LookupVar p var = constants p var"

definition LookupLabel :: "GekkoIRPlugin \<Rightarrow> string \<Rightarrow> u32 option" where
  "LookupLabel p lab = labels p lab"

text \<open>
  \<open>GetChunk<T>\<close> returns the last chunk of the active block when it holds a \<open>T\<close>
  and appends an empty \<open>T\<close> otherwise. The three instances return the chunk list with
  that chunk last.
\<close>

definition GetChunk_Inst :: "ChunkVariant list \<Rightarrow> ChunkVariant list \<times> GekkoInstruction list" where
  "GetChunk_Inst cs =
     (if cs \<noteq> [] then (case last cs of InstChunk v \<Rightarrow> (butlast cs, v) | _ \<Rightarrow> (cs, []))
      else (cs, []))"

definition GetChunk_Byte :: "ChunkVariant list \<Rightarrow> ChunkVariant list \<times> u8 list" where
  "GetChunk_Byte cs =
     (if cs \<noteq> [] then (case last cs of ByteChunk v \<Rightarrow> (butlast cs, v) | _ \<Rightarrow> (cs, []))
      else (cs, []))"

definition GetChunk_Pad :: "ChunkVariant list \<Rightarrow> ChunkVariant list \<times> nat" where
  "GetChunk_Pad cs =
     (if cs \<noteq> [] then (case last cs of PadChunk v \<Rightarrow> (butlast cs, v) | _ \<Rightarrow> (cs, 0))
      else (cs, 0))"

definition append_bytes :: "u8 list \<Rightarrow> GekkoIRPlugin \<Rightarrow> GekkoIRPlugin" where
  "append_bytes bs p =
     (let b = active_block p; (before, bytes) = GetChunk_Byte (chunks b)
      in set_active_block (b\<lparr> chunks := before @ [ByteChunk (bytes @ bs)] \<rparr>) p)"

definition append_pad :: "nat \<Rightarrow> GekkoIRPlugin \<Rightarrow> GekkoIRPlugin" where
  "append_pad n p =
     (let b = active_block p; (before, current_pad) = GetChunk_Pad (chunks b)
      in set_active_block (b\<lparr> chunks := before @ [PadChunk (current_pad + n)] \<rparr>) p)"

definition append_inst :: "GekkoInstruction \<Rightarrow> GekkoIRPlugin \<Rightarrow> GekkoIRPlugin" where
  "append_inst inst p =
     (let b = active_block p; (before, insts) = GetChunk_Inst (chunks b)
      in set_active_block (b\<lparr> chunks := before @ [InstChunk (insts @ [inst])] \<rparr>) p)"

text \<open>\<open>AddBytes\<close> on an integer: the bytes of the value, most significant first.\<close>

definition be_bytes :: "'a::len word \<Rightarrow> u8 list" where
  "be_bytes val = map (\<lambda>i. ucast (drop_bit (8 * i) val)) (rev [0..<LENGTH('a) div 8])"

definition AddBytes :: "'a::len word \<Rightarrow> GekkoIRPlugin \<Rightarrow> GekkoIRPlugin" where
  "AddBytes val p = append_bytes (be_bytes val) p"

definition AddStringBytes :: "string \<Rightarrow> bool \<Rightarrow> GekkoIRPlugin \<Rightarrow> GekkoIRPlugin option" where
  "AddStringBytes str null_term p =
     (case ConvertStringLiteral str [] of
        None \<Rightarrow> None
      | Some bs \<Rightarrow> Some (append_bytes (if null_term then bs @ [0] else bs) p))"

text \<open>
  \<^verbatim>\<open>const u32 align_mask = (1 << bits) - 1;\<close> is computed on \<open>int\<close>: the shift is
  undefined for \<open>bits \<ge> 32\<close> and the subtraction overflows for \<open>bits = 31\<close>.
\<close>

definition align_mask_of :: "u32 \<Rightarrow> u32 option" where
  "align_mask_of bits =
     (if unat bits \<le> 30 then Some (push_bit (unat bits) 1 - 1) else None)"

definition PadAlign :: "u32 \<Rightarrow> GekkoIRPlugin \<Rightarrow> GekkoIRPlugin option" where
  "PadAlign bits p =
     (case align_mask_of bits of
        None \<Rightarrow> None
      | Some align_mask \<Rightarrow>
          (let current_addr = BlockEndAddress (active_block p) in
           if current_addr AND align_mask \<noteq> 0
           then Some (append_pad
                  (unat (push_bit (unat bits) 1 - (current_addr AND align_mask))) p)
           else Some p))"

definition PadSpace :: "nat \<Rightarrow> GekkoIRPlugin \<Rightarrow> GekkoIRPlugin" where
  "PadSpace space p = append_pad space p"

definition StartBlock :: "u32 \<Rightarrow> GekkoIRPlugin \<Rightarrow> GekkoIRPlugin" where
  "StartBlock address p =
     p\<lparr> output_result :=
          (output_result p)\<lparr> blocks := blocks (output_result p) @ [IRBlock_at address] \<rparr> \<rparr>"

definition StartBlockAlign :: "u32 \<Rightarrow> GekkoIRPlugin \<Rightarrow> GekkoIRPlugin option" where
  "StartBlockAlign bits p =
     (case align_mask_of bits of
        None \<Rightarrow> None
      | Some align_mask \<Rightarrow>
          (let current_addr = BlockEndAddress (active_block p) in
           if current_addr AND align_mask \<noteq> 0
           then Some (StartBlock (push_bit (unat bits) 1 + (current_addr AND NOT align_mask)) p)
           else Some p))"

definition StartInstruction :: "nat \<Rightarrow> bool \<Rightarrow> GekkoIRPlugin \<Rightarrow> GekkoIRPlugin" where
  "StartInstruction mnemonic_idx extended p =
     p\<lparr> build_inst := \<lparr> mnemonic_index = mnemonic_idx, op_index = 0, op_count = 0,
                         raw_text = CurrentLine (lexer (owner p)),
                         line_number = LineNumber (lexer (owner p)),
                         is_extended = extended \<rparr>,
        operand_scan_begin := length (operand_pool (output_result p)) \<rparr>"

text \<open>The fixup stack: the head of the list is the top.\<close>

definition AddBinaryEvaluator ::
  "(u32 \<Rightarrow> u32 \<Rightarrow> u32 option) \<Rightarrow> GekkoIRPlugin \<Rightarrow> GekkoIRPlugin option" where
  "AddBinaryEvaluator evaluator p =
     (case fixup_stack p of
        rhs # lhs # rest \<Rightarrow> Some (p\<lparr> fixup_stack := FBinaryEvaluator evaluator lhs rhs # rest \<rparr>)
      | _ \<Rightarrow> None)"

definition AddUnaryEvaluator ::
  "(u32 \<Rightarrow> u32 option) \<Rightarrow> GekkoIRPlugin \<Rightarrow> GekkoIRPlugin option" where
  "AddUnaryEvaluator evaluator p =
     (case fixup_stack p of
        sub # rest \<Rightarrow> Some (p\<lparr> fixup_stack := FUnaryEvaluator evaluator sub # rest \<rparr>)
      | _ \<Rightarrow> None)"

definition AddAbsoluteAddressConv :: "GekkoIRPlugin \<Rightarrow> GekkoIRPlugin option" where
  "AddAbsoluteAddressConv p =
     (let inst_address = BlockEndAddress (active_block p) in
      case fixup_stack p of
        sub # rest \<Rightarrow> Some (p\<lparr> fixup_stack := FAbsoluteAddressConv inst_address sub # rest \<rparr>)
      | _ \<Rightarrow> None)"

definition AddLiteral :: "u32 \<Rightarrow> GekkoIRPlugin \<Rightarrow> GekkoIRPlugin" where
  "AddLiteral lit p = p\<lparr> fixup_stack := FLiteral lit # fixup_stack p \<rparr>"

definition AddSymbolResolve :: "string \<Rightarrow> bool \<Rightarrow> GekkoIRPlugin \<Rightarrow> GekkoIRPlugin" where
  "AddSymbolResolve symb absolute p =
     (let source_address = BlockEndAddress (active_block p);
          err_on_fail = \<lparr> message = ''Unresolved symbol '' @ [CHR 0x27] @ symb @ [CHR 0x27],
                          error_line = CurrentLine (lexer (owner p)),
                          line = LineNumber (lexer (owner p)),
                          col = ColNumber (lexer (owner p)),
                          len = length symb \<rparr>
      in p\<lparr> fixup_stack := FSymbolResolve symb absolute source_address err_on_fail # fixup_stack p \<rparr>)"

text \<open>
  \<open>SaveOperandFixup\<close>; the length of the interval is a difference of \<open>size_t\<close> values.
\<close>

definition SaveOperandFixup :: "nat \<Rightarrow> nat \<Rightarrow> GekkoIRPlugin \<Rightarrow> GekkoIRPlugin option" where
  "SaveOperandFixup str_left str_right p =
     (case fixup_stack p of
        top_f # rest \<Rightarrow>
          Some (p\<lparr> operand_fixups := operand_fixups p @ [top_f],
                   fixup_stack := rest,
                   output_result := (output_result p)\<lparr> operand_pool :=
                     operand_pool (output_result p) @
                       [(\<lparr> i_begin = str_left,
                           i_len = (str_right + 2 ^ 64 - str_left) mod 2 ^ 64 \<rparr>, 0)] \<rparr> \<rparr>)
      | [] \<Rightarrow> None)"

definition FinishInstruction :: "GekkoIRPlugin \<Rightarrow> GekkoIRPlugin" where
  "FinishInstruction p =
     (let inst = (build_inst p)\<lparr> op_index := operand_scan_begin p,
                                 op_count := (length (operand_pool (output_result p)) + 2 ^ 64
                                              - operand_scan_begin p) mod 2 ^ 64 \<rparr>
      in (append_inst inst (p\<lparr> build_inst := inst \<rparr>))\<lparr> operand_scan_begin := 0 \<rparr>)"

subsection \<open>Running a fixup\<close>

text \<open>
  Calling a closure. It reads the two symbol tables as they are at the time of the call
  and may write \<open>owner->error\<close>. The source calls \<open>evaluator(lhs(), rhs())\<close>, which
  leaves the order of the two calls to the compiler: \<open>rhs_first\<close> chooses it. The result
  is \<open>None\<close> where an evaluator has undefined behaviour.
\<close>

fun run_fixup ::
  "bool \<Rightarrow> (string \<rightharpoonup> u32) \<Rightarrow> (string \<rightharpoonup> u64) \<Rightarrow> fixup \<Rightarrow> AssemblerError option
     \<Rightarrow> (u32 \<times> AssemblerError option) option" where
  "run_fixup rhs_first ls cs (FLiteral lit) err = Some (lit, err)"
| "run_fixup rhs_first ls cs (FSymbolResolve symb absolute source_address err_on_fail) err =
     (case ls symb of
        Some address \<Rightarrow> Some ((if absolute then address else address - source_address), err)
      | None \<Rightarrow>
          (case cs symb of
             Some v \<Rightarrow> Some (ucast v, err)
           | None \<Rightarrow> Some (0, Some err_on_fail)))"
| "run_fixup rhs_first ls cs (FBinaryEvaluator evaluator lhs rhs) err =
     (if rhs_first then
        (case run_fixup rhs_first ls cs rhs err of
           None \<Rightarrow> None
         | Some (r, err1) \<Rightarrow>
             (case run_fixup rhs_first ls cs lhs err1 of
                None \<Rightarrow> None
              | Some (l, err2) \<Rightarrow> map_option (\<lambda>v. (v, err2)) (evaluator l r)))
      else
        (case run_fixup rhs_first ls cs lhs err of
           None \<Rightarrow> None
         | Some (l, err1) \<Rightarrow>
             (case run_fixup rhs_first ls cs rhs err1 of
                None \<Rightarrow> None
              | Some (r, err2) \<Rightarrow> map_option (\<lambda>v. (v, err2)) (evaluator l r))))"
| "run_fixup rhs_first ls cs (FUnaryEvaluator evaluator sub) err =
     (case run_fixup rhs_first ls cs sub err of
        None \<Rightarrow> None
      | Some (v, err1) \<Rightarrow> map_option (\<lambda>v'. (v', err1)) (evaluator v))"
| "run_fixup rhs_first ls cs (FAbsoluteAddressConv inst_address sub) err =
     (case run_fixup rhs_first ls cs sub err of
        None \<Rightarrow> None
      | Some (v, err1) \<Rightarrow> Some (v - inst_address, err1))"

text \<open>
  \<open>RunFixups\<close>: the loop over \<open>operand_fixups\<close> from index \<open>i\<close>. One step calls the
  closure, which may set \<open>owner->error\<close>, writes the value into the operand pool
  (\<open>write_fixup\<close>) and returns if the error is set. A write outside the pool is \<open>None\<close>.
\<close>

definition write_fixup :: "nat \<Rightarrow> u32 \<Rightarrow> AssemblerError option \<Rightarrow> GekkoIRPlugin \<Rightarrow> GekkoIRPlugin" where
  "write_fixup i v err p =
     (let pool = operand_pool (output_result p) in
      p\<lparr> owner := (owner p)\<lparr> error := err \<rparr>,
         output_result := (output_result p)\<lparr> operand_pool := pool[i := (fst (pool ! i), v)] \<rparr> \<rparr>)"

fun RunFixups_from :: "bool \<Rightarrow> nat \<Rightarrow> fixup list \<Rightarrow> GekkoIRPlugin \<Rightarrow> GekkoIRPlugin option" where
  "RunFixups_from rhs_first i [] p = Some p"
| "RunFixups_from rhs_first i (f # fs) p =
     (case run_fixup rhs_first (labels p) (constants p) f (error (owner p)) of
        None \<Rightarrow> None
      | Some (v, err) \<Rightarrow>
          if i < length (operand_pool (output_result p)) then
            (let p' = write_fixup i v err p
             in if err \<noteq> None then Some p' else RunFixups_from rhs_first (i + 1) fs p')
          else None)"

definition RunFixups :: "bool \<Rightarrow> GekkoIRPlugin \<Rightarrow> GekkoIRPlugin option" where
  "RunFixups rhs_first p = RunFixups_from rhs_first 0 (operand_fixups p) p"

subsection \<open>Evaluation on the directive stack\<close>

text \<open>
  The operators of \<open>EvalOperatorAbs\<close> on one integer vector. Operands narrower than
  \<open>int\<close> are promoted, so a shift is defined below \<open>max 32 LENGTH('a)\<close>.
\<close>

definition binary_op_abs :: "AsmOp \<Rightarrow> 'a::len word \<Rightarrow> 'a word \<Rightarrow> 'a word option" where
  "binary_op_abs operation lhs rhs =
     (case operation of
        opOr \<Rightarrow> Some (lhs OR rhs)
      | opXor \<Rightarrow> Some (lhs XOR rhs)
      | opAnd \<Rightarrow> Some (lhs AND rhs)
      | opLsh \<Rightarrow> if unat rhs < max 32 LENGTH('a) then Some (push_bit (unat rhs) lhs) else None
      | opRsh \<Rightarrow> if unat rhs < max 32 LENGTH('a) then Some (drop_bit (unat rhs) lhs) else None
      | opAdd \<Rightarrow> Some (lhs + rhs)
      | opSub \<Rightarrow> Some (lhs - rhs)
      | opMul \<Rightarrow> Some (lhs * rhs)
      | opDiv \<Rightarrow> if rhs = 0 then None else Some (lhs div rhs)
      | _ \<Rightarrow> None)"

definition unary_op_abs :: "AsmOp \<Rightarrow> 'a::len word \<Rightarrow> 'a word option" where
  "unary_op_abs operation v =
     (case operation of
        opNeg \<Rightarrow> Some (- v)
      | opNot \<Rightarrow> Some (NOT v)
      | _ \<Rightarrow> None)"

definition visit_op :: "AsmOp \<Rightarrow> 'a::len word list \<Rightarrow> 'a word list option" where
  "visit_op operation vec =
     (if operation = opNeg \<or> operation = opNot then
        (case rev vec of
           v # rest \<Rightarrow> map_option (\<lambda>r. rev rest @ [r]) (unary_op_abs operation v)
         | _ \<Rightarrow> None)
      else
        (case rev vec of
           rhs # lhs # rest \<Rightarrow> map_option (\<lambda>r. rev rest @ [r]) (binary_op_abs operation lhs rhs)
         | _ \<Rightarrow> None))"

definition EvalOperatorAbs_stack :: "AsmOp \<Rightarrow> EvalStack \<Rightarrow> EvalStack option" where
  "EvalOperatorAbs_stack operation st =
     (case st of
        StackU8 vec \<Rightarrow> map_option StackU8 (visit_op operation vec)
      | StackU16 vec \<Rightarrow> map_option StackU16 (visit_op operation vec)
      | StackU32 vec \<Rightarrow> map_option StackU32 (visit_op operation vec)
      | StackU64 vec \<Rightarrow> map_option StackU64 (visit_op operation vec)
      | StackFloat vec \<Rightarrow> None
      | StackDouble vec \<Rightarrow> None)"

definition EvalOperatorAbs :: "AsmOp \<Rightarrow> GekkoIRPlugin \<Rightarrow> GekkoIRPlugin option" where
  "EvalOperatorAbs operation p =
     map_option (\<lambda>st. p\<lparr> eval_stack := st \<rparr>) (EvalOperatorAbs_stack operation (eval_stack p))"

text \<open>
  \<open>PushCast\<close> converts the value to the element type of the active vector. The
  conversion of an integer to a floating-point element is not modelled; the parser calls
  \<open>PushCast\<close> only inside integer expressions.
\<close>

definition PushCast_stack :: "'b::len word \<Rightarrow> EvalStack \<Rightarrow> EvalStack option" where
  "PushCast_stack val st =
     (case st of
        StackU8 vec \<Rightarrow> Some (StackU8 (vec @ [ucast val]))
      | StackU16 vec \<Rightarrow> Some (StackU16 (vec @ [ucast val]))
      | StackU32 vec \<Rightarrow> Some (StackU32 (vec @ [ucast val]))
      | StackU64 vec \<Rightarrow> Some (StackU64 (vec @ [ucast val]))
      | StackFloat vec \<Rightarrow> None
      | StackDouble vec \<Rightarrow> None)"

definition PushCast :: "'b::len word \<Rightarrow> GekkoIRPlugin \<Rightarrow> GekkoIRPlugin option" where
  "PushCast val p = map_option (\<lambda>st. p\<lparr> eval_stack := st \<rparr>) (PushCast_stack val (eval_stack p))"

definition EvalOperatorRel :: "AsmOp \<Rightarrow> GekkoIRPlugin \<Rightarrow> GekkoIRPlugin option" where
  "EvalOperatorRel operation p =
     (case operation of
        opOr \<Rightarrow> AddBinaryEvaluator (\<lambda>lhs rhs. Some (lhs OR rhs)) p
      | opXor \<Rightarrow> AddBinaryEvaluator (\<lambda>lhs rhs. Some (lhs XOR rhs)) p
      | opAnd \<Rightarrow> AddBinaryEvaluator (\<lambda>lhs rhs. Some (lhs AND rhs)) p
      | opLsh \<Rightarrow> AddBinaryEvaluator
          (\<lambda>lhs rhs. if unat rhs < 32 then Some (push_bit (unat rhs) lhs) else None) p
      | opRsh \<Rightarrow> AddBinaryEvaluator
          (\<lambda>lhs rhs. if unat rhs < 32 then Some (drop_bit (unat rhs) lhs) else None) p
      | opAdd \<Rightarrow> AddBinaryEvaluator (\<lambda>lhs rhs. Some (lhs + rhs)) p
      | opSub \<Rightarrow> AddBinaryEvaluator (\<lambda>lhs rhs. Some (lhs - rhs)) p
      | opMul \<Rightarrow> AddBinaryEvaluator (\<lambda>lhs rhs. Some (lhs * rhs)) p
      | opDiv \<Rightarrow> AddBinaryEvaluator
          (\<lambda>lhs rhs. if rhs = 0 then None else Some (lhs div rhs)) p
      | opNeg \<Rightarrow> AddUnaryEvaluator (\<lambda>val. Some (- val)) p
      | opNot \<Rightarrow> AddUnaryEvaluator (\<lambda>val. Some (NOT val)) p)"

definition is_value_terminal :: "Terminal \<Rightarrow> bool" where
  "is_value_terminal tp =
     (tp \<in> {tHex, tDec, tOct, tBin, tGPR, tFPR, tSPR, tCRField, tLt, tGt, tEq, tSo})"

definition EvalTerminalRel :: "Terminal \<Rightarrow> AssemblerToken \<Rightarrow> GekkoIRPlugin \<Rightarrow> GekkoIRPlugin option" where
  "EvalTerminalRel tp tok p =
     (if is_value_terminal tp then
        (case (EvalToken tok :: u32 option) of
           None \<Rightarrow> None
         | Some val \<Rightarrow> Some (AddLiteral val p))
      else if tp = tDot then Some (AddLiteral (CurrentAddress p) p)
      else if tp = tId then
        (case labels p (token_val tok) of
           Some address \<Rightarrow> Some (AddLiteral address p)
         | None \<Rightarrow>
             (case constants p (token_val tok) of
                Some v \<Rightarrow> Some (AddLiteral (ucast v) p)
              | None \<Rightarrow> Some (AddSymbolResolve (token_val tok) False p)))
      else None)"

definition undefined_reference :: "string \<Rightarrow> string" where
  "undefined_reference name =
     ''Undefined reference to Label/Constant '' @ [CHR 0x27] @ name @ [CHR 0x27]"

text \<open>
  \<open>EvalTerminalAbsGeneric<T>\<close> for the four integer element types: \<open>wrap\<close> is the
  constructor of the active vector.
\<close>

definition EvalTerminalAbs_int ::
  "('a::len word list \<Rightarrow> EvalStack) \<Rightarrow> 'a word list \<Rightarrow> Terminal \<Rightarrow> AssemblerToken
     \<Rightarrow> GekkoIRPlugin \<Rightarrow> GekkoIRPlugin option" where
  "EvalTerminalAbs_int wrap out_stack tp tok p =
     (if is_value_terminal tp \<or> tp = tFlt then
        (case (EvalToken tok :: 'a word option) of
           None \<Rightarrow> None
         | Some val \<Rightarrow> Some (p\<lparr> eval_stack := wrap (out_stack @ [val]) \<rparr>))
      else if tp = tDot then
        Some (p\<lparr> eval_stack := wrap (out_stack @ [ucast (CurrentAddress p)]) \<rparr>)
      else if tp = tId then
        (case labels p (token_val tok) of
           Some address \<Rightarrow> Some (p\<lparr> eval_stack := wrap (out_stack @ [ucast address]) \<rparr>)
         | None \<Rightarrow>
             (case constants p (token_val tok) of
                Some v \<Rightarrow> Some (p\<lparr> eval_stack := wrap (out_stack @ [ucast v]) \<rparr>)
              | None \<Rightarrow> Some (plugin_error (undefined_reference (ValStr tok)) p)))
      else None)"

text \<open>
  The two floating-point instances. Only a float literal has a value there; the
  conversions of the current address and of a symbol to a floating-point element are
  not modelled.
\<close>

definition EvalTerminalAbs_float ::
  "FloatConv \<Rightarrow> Terminal \<Rightarrow> AssemblerToken \<Rightarrow> GekkoIRPlugin \<Rightarrow> GekkoIRPlugin option" where
  "EvalTerminalAbs_float fc tp tok p =
     (case eval_stack p of
        StackFloat vec \<Rightarrow>
          (if is_value_terminal tp \<or> tp = tFlt then
             (case EvalToken_float fc tok of
                None \<Rightarrow> None
              | Some val \<Rightarrow> Some (p\<lparr> eval_stack := StackFloat (vec @ [val]) \<rparr>))
           else if tp = tId \<and> labels p (token_val tok) = None
                   \<and> constants p (token_val tok) = None
           then Some (plugin_error (undefined_reference (ValStr tok)) p)
           else None)
      | StackDouble vec \<Rightarrow>
          (if is_value_terminal tp \<or> tp = tFlt then
             (case EvalToken_double fc tok of
                None \<Rightarrow> None
              | Some val \<Rightarrow> Some (p\<lparr> eval_stack := StackDouble (vec @ [val]) \<rparr>))
           else if tp = tId \<and> labels p (token_val tok) = None
                   \<and> constants p (token_val tok) = None
           then Some (plugin_error (undefined_reference (ValStr tok)) p)
           else None)
      | _ \<Rightarrow> None)"

definition EvalTerminalAbs ::
  "FloatConv \<Rightarrow> Terminal \<Rightarrow> AssemblerToken \<Rightarrow> GekkoIRPlugin \<Rightarrow> GekkoIRPlugin option" where
  "EvalTerminalAbs fc tp tok p =
     (case eval_stack p of
        StackU8 vec \<Rightarrow> EvalTerminalAbs_int StackU8 vec tp tok p
      | StackU16 vec \<Rightarrow> EvalTerminalAbs_int StackU16 vec tp tok p
      | StackU32 vec \<Rightarrow> EvalTerminalAbs_int StackU32 vec tp tok p
      | StackU64 vec \<Rightarrow> EvalTerminalAbs_int StackU64 vec tp tok p
      | _ \<Rightarrow> EvalTerminalAbs_float fc tp tok p)"

subsection \<open>The callouts\<close>

definition OnDirectivePre :: "GekkoDirective \<Rightarrow> GekkoIRPlugin \<Rightarrow> GekkoIRPlugin" where
  "OnDirectivePre directive p =
     p\<lparr> evaluation_mode := AbsAddrSinglePass,
        active_directive := directive,
        eval_stack :=
          (case directive of
             kByte \<Rightarrow> StackU8 []
           | k2byte \<Rightarrow> StackU16 []
           | k4byte \<Rightarrow> StackU32 []
           | kLocate \<Rightarrow> StackU32 []
           | kPadAlign \<Rightarrow> StackU32 []
           | kAlign \<Rightarrow> StackU32 []
           | kZeros \<Rightarrow> StackU32 []
           | kSkip \<Rightarrow> StackU32 []
           | k8byte \<Rightarrow> StackU64 []
           | kDefVar \<Rightarrow> StackU64 []
           | kFloat \<Rightarrow> StackFloat []
           | kDouble \<Rightarrow> StackDouble []
           | _ \<Rightarrow> StackU8 []) \<rparr>"

text \<open>
  \<^verbatim>\<open>std::get<std::vector<u32>>(eval_stack).back()\<close> and its \<open>u64\<close> sibling: \<open>None\<close>
  when the variant holds another vector or the vector is empty.
\<close>

definition back_u32 :: "EvalStack \<Rightarrow> u32 option" where
  "back_u32 st = (case st of StackU32 vec \<Rightarrow> (if vec = [] then None else Some (last vec)) | _ \<Rightarrow> None)"

definition back_u64 :: "EvalStack \<Rightarrow> u64 option" where
  "back_u64 st = (case st of StackU64 vec \<Rightarrow> (if vec = [] then None else Some (last vec)) | _ \<Rightarrow> None)"

definition OnDirectivePost :: "GekkoDirective \<Rightarrow> GekkoIRPlugin \<Rightarrow> GekkoIRPlugin option" where
  "OnDirectivePost directive p =
     map_option (\<lambda>p'. p'\<lparr> eval_stack := StackU8 [] \<rparr>)
       (case directive of
          kDefVar \<Rightarrow>
            (case (active_var p, back_u64 (eval_stack p)) of
               (Some name, Some v) \<Rightarrow>
                 Some (p\<lparr> constants := (constants p)(name \<mapsto> v), active_var := None \<rparr>)
             | _ \<Rightarrow> None)
        | kLocate \<Rightarrow> map_option (\<lambda>v. StartBlock v p) (back_u32 (eval_stack p))
        | kZeros \<Rightarrow> map_option (\<lambda>v. PadSpace (unat v) p) (back_u32 (eval_stack p))
        | kSkip \<Rightarrow> map_option (\<lambda>v. StartBlock (CurrentAddress p + v) p) (back_u32 (eval_stack p))
        | kPadAlign \<Rightarrow> Option.bind (back_u32 (eval_stack p)) (\<lambda>v. PadAlign v p)
        | kAlign \<Rightarrow> Option.bind (back_u32 (eval_stack p)) (\<lambda>v. StartBlockAlign v p)
        | kAscii \<Rightarrow> AddStringBytes (string_lit p) False p
        | kAsciz \<Rightarrow> AddStringBytes (string_lit p) True p
        | _ \<Rightarrow> Some p)"

definition OnInstructionPre :: "ParseInfo \<Rightarrow> bool \<Rightarrow> GekkoIRPlugin \<Rightarrow> GekkoIRPlugin" where
  "OnInstructionPre mnemonic_info extended p =
     StartInstruction (pi_mnemonic_index mnemonic_info) extended
       (p\<lparr> evaluation_mode := RelAddrDoublePass \<rparr>)"

definition OnInstructionPost :: "ParseInfo \<Rightarrow> bool \<Rightarrow> GekkoIRPlugin \<Rightarrow> GekkoIRPlugin" where
  "OnInstructionPost mnemonic_info extended p = FinishInstruction p"

definition OnOperandPre :: "GekkoIRPlugin \<Rightarrow> GekkoIRPlugin" where
  "OnOperandPre p = p\<lparr> operand_str_start := ColNumber (lexer (owner p)) \<rparr>"

definition OnOperandPost :: "GekkoIRPlugin \<Rightarrow> GekkoIRPlugin option" where
  "OnOperandPost p = SaveOperandFixup (operand_str_start p) (ColNumber (lexer (owner p))) p"

definition OnResolvedExprPost :: "GekkoIRPlugin \<Rightarrow> GekkoIRPlugin" where
  "OnResolvedExprPost p =
     (if active_directive p \<in> {kByte, k2byte, k4byte, k8byte, kFloat, kDouble} then
        (case eval_stack p of
           StackU8 vec \<Rightarrow> (foldl (\<lambda>q val. AddBytes val q) p vec)\<lparr> eval_stack := StackU8 [] \<rparr>
         | StackU16 vec \<Rightarrow> (foldl (\<lambda>q val. AddBytes val q) p vec)\<lparr> eval_stack := StackU16 [] \<rparr>
         | StackU32 vec \<Rightarrow> (foldl (\<lambda>q val. AddBytes val q) p vec)\<lparr> eval_stack := StackU32 [] \<rparr>
         | StackU64 vec \<Rightarrow> (foldl (\<lambda>q val. AddBytes val q) p vec)\<lparr> eval_stack := StackU64 [] \<rparr>
         | StackFloat vec \<Rightarrow>
             (foldl (\<lambda>q val. AddBytes val q) p vec)\<lparr> eval_stack := StackFloat [] \<rparr>
         | StackDouble vec \<Rightarrow>
             (foldl (\<lambda>q val. AddBytes val q) p vec)\<lparr> eval_stack := StackDouble [] \<rparr>)
      else p)"

definition OnOperator :: "AsmOp \<Rightarrow> GekkoIRPlugin \<Rightarrow> GekkoIRPlugin option" where
  "OnOperator operation p =
     (if evaluation_mode p = RelAddrDoublePass then EvalOperatorRel operation p
      else EvalOperatorAbs operation p)"

definition OnTerminal ::
  "FloatConv \<Rightarrow> Terminal \<Rightarrow> AssemblerToken \<Rightarrow> GekkoIRPlugin \<Rightarrow> GekkoIRPlugin option" where
  "OnTerminal fc tp val p =
     (if tp = tStr then Some (p\<lparr> string_lit := token_val val \<rparr>)
      else if evaluation_mode p = RelAddrDoublePass then EvalTerminalRel tp val p
      else EvalTerminalAbs fc tp val p)"

text \<open>
  \<open>OnHiaddr\<close> and \<open>OnLoaddr\<close>. In the single-pass branch the symbol is pushed with the
  conversion of its own type (a label is a \<open>u32\<close>, a constant a \<open>u64\<close>), then \<open>16\<close> as a
  \<open>u8\<close> and \<open>0xffff\<close> as a \<open>u16\<close>.
\<close>

definition push_symbol_abs :: "string \<Rightarrow> GekkoIRPlugin \<Rightarrow> GekkoIRPlugin option option" where
  "push_symbol_abs ident p =
     (case LookupLabel p ident of
        Some lbl \<Rightarrow> Some (PushCast lbl p)
      | None \<Rightarrow>
          (case LookupVar p ident of
             Some var \<Rightarrow> Some (PushCast var p)
           | None \<Rightarrow> None))"

definition OnHiaddr :: "string \<Rightarrow> GekkoIRPlugin \<Rightarrow> GekkoIRPlugin option" where
  "OnHiaddr ident p =
     (if evaluation_mode p = RelAddrDoublePass then
        Option.bind
          (AddBinaryEvaluator
             (\<lambda>lhs rhs. if unat rhs < 32 then Some (drop_bit (unat rhs) lhs) else None)
             (AddLiteral 16 (AddSymbolResolve ident True p)))
          (\<lambda>p1. AddBinaryEvaluator (\<lambda>lhs rhs. Some (lhs AND rhs)) (AddLiteral 0xffff p1))
      else
        (case push_symbol_abs ident p of
           None \<Rightarrow> Some (plugin_error (undefined_reference ident) p)
         | Some pushed \<Rightarrow>
             Option.bind pushed (\<lambda>p1.
             Option.bind (PushCast (16 :: u8) p1) (\<lambda>p2.
             Option.bind (EvalOperatorAbs opRsh p2) (\<lambda>p3.
             Option.bind (PushCast (0xffff :: u16) p3) (\<lambda>p4.
             EvalOperatorAbs opAnd p4))))))"

definition OnLoaddr :: "string \<Rightarrow> GekkoIRPlugin \<Rightarrow> GekkoIRPlugin option" where
  "OnLoaddr ident p =
     (if evaluation_mode p = RelAddrDoublePass then
        AddBinaryEvaluator (\<lambda>lhs rhs. Some (lhs AND rhs))
          (AddLiteral 0xffff (AddSymbolResolve ident True p))
      else
        (case push_symbol_abs ident p of
           None \<Rightarrow> Some (plugin_error (undefined_reference ident) p)
         | Some pushed \<Rightarrow>
             Option.bind pushed (\<lambda>p1.
             Option.bind (PushCast (0xffff :: u16) p1) (\<lambda>p2.
             EvalOperatorAbs opAnd p2))))"

definition OnCloseParen :: "ParenType \<Rightarrow> GekkoIRPlugin \<Rightarrow> GekkoIRPlugin option" where
  "OnCloseParen tp p =
     (if evaluation_mode p = RelAddrDoublePass then
        (if tp = kRelConv then AddAbsoluteAddressConv p else Some p)
      else
        Option.bind (PushCast (CurrentAddress p) p) (\<lambda>p1. EvalOperatorAbs opSub p1))"

definition already_defined :: "string \<Rightarrow> string" where
  "already_defined name = ''Label/Constant '' @ name @ '' is already defined''"

definition OnLabelDecl :: "string \<Rightarrow> GekkoIRPlugin \<Rightarrow> GekkoIRPlugin" where
  "OnLabelDecl name p =
     (if name \<in> symset p then plugin_error (already_defined name) p
      else p\<lparr> labels := (labels p)(name \<mapsto> BlockEndAddress (active_block p)),
              symset := insert name (symset p) \<rparr>)"

text \<open>
  \<open>OnVarDecl\<close>: \<open>&constants[name]\<close> inserts the name with the value \<open>0\<close> and
  \<open>active_var\<close> points at the new entry until \<open>OnDirectivePost\<close> writes through it.
\<close>

definition OnVarDecl :: "string \<Rightarrow> GekkoIRPlugin \<Rightarrow> GekkoIRPlugin" where
  "OnVarDecl name p =
     (if name \<in> symset p then plugin_error (already_defined name) p
      else p\<lparr> constants := (constants p)(name \<mapsto> (case constants p name of Some v \<Rightarrow> v | None \<Rightarrow> 0)),
              active_var := Some name,
              symset := insert name (symset p) \<rparr>)"

definition PostParseAction :: "bool \<Rightarrow> GekkoIRPlugin \<Rightarrow> GekkoIRPlugin option" where
  "PostParseAction rhs_first p = RunFixups rhs_first p"

subsection \<open>The parser as a sequence of callouts\<close>

text \<open>
  The parser drives the plugin: each nonterminal and terminal it recognises is one call
  of a virtual function of \<open>ParsePlugin\<close>, made with the lexer in the state the parser
  has brought it to. A run of \<open>ParseProgram\<close> is represented by the list of these calls,
  each with the lexer of that moment; \<open>ParserError\<close> is an error the parser raises by
  itself with \<open>EmitErrorHere\<close>. \<open>OnOpenParen\<close>, \<open>OnResolvedExprPre\<close> and \<open>OnError\<close>
  are not overridden by the IR generator.
\<close>

datatype callout =
  DirectivePre GekkoDirective
  | DirectivePost GekkoDirective
  | InstructionPre ParseInfo bool
  | InstructionPost ParseInfo bool
  | OperandPre
  | OperandPost
  | ResolvedExprPre
  | ResolvedExprPost
  | Operator AsmOp
  | TerminalTok Terminal AssemblerToken
  | Hiaddr string
  | Loaddr string
  | OpenParen ParenType
  | CloseParen ParenType
  | LabelDecl string
  | VarDecl string
  | ParserError string

fun do_callout :: "FloatConv \<Rightarrow> callout \<Rightarrow> GekkoIRPlugin \<Rightarrow> GekkoIRPlugin option" where
  "do_callout fc (DirectivePre d) p = Some (OnDirectivePre d p)"
| "do_callout fc (DirectivePost d) p = OnDirectivePost d p"
| "do_callout fc (InstructionPre info ext) p = Some (OnInstructionPre info ext p)"
| "do_callout fc (InstructionPost info ext) p = Some (OnInstructionPost info ext p)"
| "do_callout fc OperandPre p = Some (OnOperandPre p)"
| "do_callout fc OperandPost p = OnOperandPost p"
| "do_callout fc ResolvedExprPre p = Some p"
| "do_callout fc ResolvedExprPost p = Some (OnResolvedExprPost p)"
| "do_callout fc (Operator operation) p = OnOperator operation p"
| "do_callout fc (TerminalTok tp tok) p = OnTerminal fc tp tok p"
| "do_callout fc (Hiaddr ident) p = OnHiaddr ident p"
| "do_callout fc (Loaddr ident) p = OnLoaddr ident p"
| "do_callout fc (OpenParen tp) p = Some p"
| "do_callout fc (CloseParen tp) p = OnCloseParen tp p"
| "do_callout fc (LabelDecl name) p = Some (OnLabelDecl name p)"
| "do_callout fc (VarDecl name) p = Some (OnVarDecl name p)"
| "do_callout fc (ParserError msg) p = Some (plugin_error msg p)"

text \<open>
  The parser checks \<open>state.error\<close> after the callouts that can set it and returns; no
  callout follows an error.
\<close>

fun ParseProgram ::
  "FloatConv \<Rightarrow> (Lexer \<times> callout) list \<Rightarrow> GekkoIRPlugin \<Rightarrow> GekkoIRPlugin option" where
  "ParseProgram fc [] p = Some p"
| "ParseProgram fc ((lx, c) # rest) p =
     (if error (owner p) \<noteq> None then Some p
      else
        (case do_callout fc c (p\<lparr> owner := (owner p)\<lparr> lexer := lx \<rparr> \<rparr>) of
           None \<Rightarrow> None
         | Some p' \<Rightarrow> ParseProgram fc rest p'))"

text \<open>
  \<open>ParseWithPlugin\<close>: make the parse state and give it to the plugin, parse (the list
  \<open>calls\<close> is what \<open>ParseProgram\<close> does on \<open>input\<close>); on an error forward it to the
  plugin; otherwise run the post-parse action and forward the error it may have raised.
\<close>

definition ForwardError :: "GekkoIRPlugin \<Rightarrow> GekkoIRPlugin" where
  "ForwardError p = p\<lparr> owner_error := error (owner p) \<rparr>"

definition ParseWithPlugin ::
  "FloatConv \<Rightarrow> bool \<Rightarrow> string \<Rightarrow> (Lexer \<times> callout) list \<Rightarrow> GekkoIRPlugin
     \<Rightarrow> GekkoIRPlugin option" where
  "ParseWithPlugin fc rhs_first input calls p =
     (case ParseProgram fc calls (p\<lparr> owner := ParseState_init input \<rparr>) of
        None \<Rightarrow> None
      | Some p1 \<Rightarrow>
          if error (owner p1) \<noteq> None then Some (ForwardError p1)
          else
            (case PostParseAction rhs_first p1 of
               None \<Rightarrow> None
             | Some p2 \<Rightarrow> if error (owner p2) \<noteq> None then Some (ForwardError p2) else Some p2))"

section \<open>Notions of the specification\<close>

text \<open>
  The size of a chunk as the data model states it: an instruction chunk of \<open>n\<close>
  instructions has \<open>4 * n\<close> bytes, a byte chunk its length, a pad chunk its count.
\<close>

definition chunk_bytes :: "ChunkVariant \<Rightarrow> nat" where
  "chunk_bytes chunk =
     (case chunk of
        InstChunk insts \<Rightarrow> 4 * length insts
      | ByteChunk bytes \<Rightarrow> length bytes
      | PadChunk n \<Rightarrow> n)"

text \<open>Rounding \<open>a\<close> up to the next multiple of \<open>m\<close>.\<close>

definition align_up :: "nat \<Rightarrow> nat \<Rightarrow> nat" where
  "align_up a m = ((a + m - 1) div m) * m"

text \<open>
  The two symbol tables and the set of defined names agree: no name is in both tables and
  the set holds exactly the names of the two; the constant a \<open>.defvar\<close> is about to write
  is in the constant table.
\<close>

definition tables_inv :: "GekkoIRPlugin \<Rightarrow> bool" where
  "tables_inv p \<longleftrightarrow>
     dom (labels p) \<inter> dom (constants p) = {} \<and>
     symset p = dom (labels p) \<union> dom (constants p) \<and>
     (\<forall>n. active_var p = Some n \<longrightarrow> n \<in> dom (constants p))"

text \<open>Two states of the generator with the same symbol tables.\<close>

definition same_tables :: "GekkoIRPlugin \<Rightarrow> GekkoIRPlugin \<Rightarrow> bool" where
  "same_tables p p' \<longleftrightarrow>
     labels p' = labels p \<and> constants p' = constants p \<and> symset p' = symset p \<and>
     active_var p' = active_var p"

text \<open>The state in which \<open>ParseProgram\<close> makes a callout: the parser has set the lexer.\<close>

definition with_lexer :: "Lexer \<Rightarrow> GekkoIRPlugin \<Rightarrow> GekkoIRPlugin" where
  "with_lexer lx p = p\<lparr> owner := (owner p)\<lparr> lexer := lx \<rparr> \<rparr>"

text \<open>The generator as \<open>ParseWithPlugin\<close> hands it to \<open>ParseProgram\<close>.\<close>

definition initial_plugin ::
  "string \<Rightarrow> u32 \<Rightarrow> EvalMode \<Rightarrow> GekkoDirective \<Rightarrow> nat \<Rightarrow> GekkoIRPlugin" where
  "initial_plugin input base_addr mode0 directive0 str0 =
     (GekkoIRPlugin_init base_addr mode0 directive0 str0)\<lparr> owner := ParseState_init input \<rparr>"

text \<open>
  The symbol references of a fixup, each with the error saved for it, and the fixups all
  of whose references are in the label table or the constant table.
\<close>

fun fixup_refs :: "fixup \<Rightarrow> (string \<times> AssemblerError) list" where
  "fixup_refs (FLiteral lit) = []"
| "fixup_refs (FSymbolResolve symb absolute source_address err_on_fail) = [(symb, err_on_fail)]"
| "fixup_refs (FBinaryEvaluator evaluator lhs rhs) = fixup_refs lhs @ fixup_refs rhs"
| "fixup_refs (FUnaryEvaluator evaluator sub) = fixup_refs sub"
| "fixup_refs (FAbsoluteAddressConv inst_address sub) = fixup_refs sub"

definition resolvable :: "(string \<rightharpoonup> u32) \<Rightarrow> (string \<rightharpoonup> u64) \<Rightarrow> fixup \<Rightarrow> bool" where
  "resolvable ls cs f \<longleftrightarrow> (\<forall>(symb, e) \<in> set (fixup_refs f). ls symb \<noteq> None \<or> cs symb \<noteq> None)"


text \<open>A fixup none of whose evaluators has undefined behaviour on any operands.\<close>

fun total_fixup :: "fixup \<Rightarrow> bool" where
  "total_fixup (FLiteral lit) = True"
| "total_fixup (FSymbolResolve symb absolute source_address err_on_fail) = True"
| "total_fixup (FBinaryEvaluator evaluator lhs rhs) =
     ((\<forall>l r. evaluator l r \<noteq> None) \<and> total_fixup lhs \<and> total_fixup rhs)"
| "total_fixup (FUnaryEvaluator evaluator sub) = ((\<forall>v. evaluator v \<noteq> None) \<and> total_fixup sub)"
| "total_fixup (FAbsoluteAddressConv inst_address sub) = total_fixup sub"

text \<open>
  The high half of a symbol as the specification defines \<open>S@ha\<close>:
  \<open>((S + 0x8000) >> 16) & 0xFFFF\<close>.
\<close>

definition spec_ha :: "u32 \<Rightarrow> u32" where
  "spec_ha S = drop_bit 16 (S + 0x8000) AND 0xFFFF"

text \<open>
  What \<open>S@ha\<close> evaluates to in an instruction operand: \<open>OnHiaddr\<close> in the double-pass
  mode leaves a closure on the fixup stack, and the fixup phase calls it with the tables
  \<open>ls\<close> and \<open>cs\<close> of that time. The result is the value with the error the call has
  set, if any.
\<close>

definition hiaddr_double_pass ::
  "bool \<Rightarrow> string \<Rightarrow> GekkoIRPlugin \<Rightarrow> (string \<rightharpoonup> u32) \<Rightarrow> (string \<rightharpoonup> u64)
     \<Rightarrow> (u32 \<times> AssemblerError option) option" where
  "hiaddr_double_pass rhs_first S p ls cs =
     (case OnHiaddr S (p\<lparr> evaluation_mode := RelAddrDoublePass \<rparr>) of
        None \<Rightarrow> None
      | Some q \<Rightarrow>
          (case fixup_stack q of
             f # rest \<Rightarrow> run_fixup rhs_first ls cs f None
           | [] \<Rightarrow> None))"

text \<open>
  What \<open>S@ha\<close> evaluates to in a directive: the operand stack after \<open>OnHiaddr\<close> in the
  single-pass mode.
\<close>

definition hiaddr_single_pass :: "string \<Rightarrow> GekkoIRPlugin \<Rightarrow> EvalStack option" where
  "hiaddr_single_pass S p =
     map_option eval_stack (OnHiaddr S (p\<lparr> evaluation_mode := AbsAddrSinglePass \<rparr>))"

text \<open>
  The value of a defined symbol: a label before a constant, as both modes look it up. In
  an instruction operand it is a \<open>u32\<close>; in a directive it is converted to the element
  type of the directive, here given as a \<open>u64\<close> before that conversion.
\<close>

definition symbol_u32 :: "(string \<rightharpoonup> u32) \<Rightarrow> (string \<rightharpoonup> u64) \<Rightarrow> string \<Rightarrow> u32 option" where
  "symbol_u32 ls cs S = (case ls S of Some a \<Rightarrow> Some a | None \<Rightarrow> map_option ucast (cs S))"

definition symbol_u64 :: "(string \<rightharpoonup> u32) \<Rightarrow> (string \<rightharpoonup> u64) \<Rightarrow> string \<Rightarrow> u64 option" where
  "symbol_u64 ls cs S = (case ls S of Some a \<Rightarrow> Some (ucast a) | None \<Rightarrow> cs S)"


text \<open>
  The values of the operand pool, one for each saved operand. Two states have the same
  pool when the saved fixups and the pool agree; the pool grows from one state to a
  later one when the later state has the fixups of the earlier one and then some more,
  and its pool has the values of the earlier one followed by one \<open>0\<close> for each new
  fixup.
\<close>

definition pool_values :: "GekkoIRPlugin \<Rightarrow> u32 list" where
  "pool_values p = map snd (operand_pool (output_result p))"

definition same_pool :: "GekkoIRPlugin \<Rightarrow> GekkoIRPlugin \<Rightarrow> bool" where
  "same_pool p p' \<longleftrightarrow>
     operand_fixups p' = operand_fixups p \<and>
     operand_pool (output_result p') = operand_pool (output_result p)"

definition pool_grows :: "GekkoIRPlugin \<Rightarrow> GekkoIRPlugin \<Rightarrow> bool" where
  "pool_grows p p' \<longleftrightarrow>
     length (operand_fixups p) \<le> length (operand_fixups p') \<and>
     take (length (operand_fixups p)) (operand_fixups p') = operand_fixups p \<and>
     pool_values p' =
       pool_values p @ replicate (length (operand_fixups p') - length (operand_fixups p)) 0"
section \<open>Example inputs\<close>

text \<open>A conversion of float literals that always throws; no example has a float.\<close>

definition no_floats :: FloatConv where
  "no_floats = \<lparr> stof = (\<lambda>s. None), stod = (\<lambda>s. None) \<rparr>"

text \<open>The lexer on the line \<open>a:\<close> after one \<open>Lookahead\<close>, as \<open>ParseLabel\<close> finds it.\<close>

definition lexer_at_label :: Lexer where
  "lexer_at_label = snd (Lookahead (Lexer_init ''a:''))"

definition plugin_start :: GekkoIRPlugin where
  "plugin_start = initial_plugin ''a:'' 0x80000000 RelAddrDoublePass kByte 0"

definition after_first_label :: GekkoIRPlugin where
  "after_first_label = OnLabelDecl ''a'' (with_lexer lexer_at_label plugin_start)"





text \<open>The symbol \<open>s\<close> as a label at \<open>0x8000\<close>, and a generator with a \<open>.4byte\<close> stack.\<close>

definition labels_s :: "string \<rightharpoonup> u32" where
  "labels_s = [''s'' \<mapsto> 0x8000]"

definition no_constants :: "string \<rightharpoonup> u64" where
  "no_constants = Map.empty"

definition plugin_4byte :: GekkoIRPlugin where
  "plugin_4byte = plugin_start\<lparr> labels := labels_s, eval_stack := StackU32 [] \<rparr>"

definition labels_hi :: "string \<rightharpoonup> u32" where
  "labels_hi = [''s'' \<mapsto> 0x12348000]"

definition plugin_hi :: GekkoIRPlugin where
  "plugin_hi = plugin_start\<lparr> labels := labels_hi, eval_stack := StackU32 [] \<rparr>"

text \<open>
  The callouts of the parser on the line \<open>.4byte (5)\<close> and on the line \<open>.4byte 5\<close>. The
  generator does not read the lexer in any of them.
\<close>

definition token_5 :: AssemblerToken where
  "token_5 = \<lparr> token_type = kDecimalLit, token_val = ''5'', invalid_reason = '''',
                invalid_region = \<lparr> i_begin = 0, i_len = 0 \<rparr> \<rparr>"

definition calls_4byte_paren :: "(Lexer \<times> callout) list" where
  "calls_4byte_paren =
     [(Lexer_init ''.4byte (5)'', DirectivePre k4byte),
      (Lexer_init ''.4byte (5)'', ResolvedExprPre),
      (Lexer_init ''.4byte (5)'', OpenParen kNormal),
      (Lexer_init ''.4byte (5)'', TerminalTok tDec token_5),
      (Lexer_init ''.4byte (5)'', CloseParen kNormal),
      (Lexer_init ''.4byte (5)'', ResolvedExprPost),
      (Lexer_init ''.4byte (5)'', DirectivePost k4byte)]"

definition calls_4byte_plain :: "(Lexer \<times> callout) list" where
  "calls_4byte_plain =
     [(Lexer_init ''.4byte 5'', DirectivePre k4byte),
      (Lexer_init ''.4byte 5'', ResolvedExprPre),
      (Lexer_init ''.4byte 5'', TerminalTok tDec token_5),
      (Lexer_init ''.4byte 5'', ResolvedExprPost),
      (Lexer_init ''.4byte 5'', DirectivePost k4byte)]"

definition plugin_at_base :: GekkoIRPlugin where
  "plugin_at_base = GekkoIRPlugin_init 0x80000000 RelAddrDoublePass kByte 0"

text \<open>The blocks of a finished run.\<close>

definition result_blocks :: "GekkoIRPlugin option \<Rightarrow> IRBlock list option" where
  "result_blocks r = map_option (\<lambda>p. blocks (output_result p)) r"










section \<open>Operand fit (C2)\<close>

lemma le_mask_and: 
  assumes "n \<le> 32" shows "(v::u32) \<le> mask n \<longleftrightarrow> v AND mask n = v"
proof -
  have "uint (mask n :: u32) = mask n"
    using assms by (simp add: uint_mask_eq min_def)
  also have "(mask n :: int) = 2 ^ n - 1"
    by (simp add: mask_eq_exp_minus_1)
  finally have "v \<le> mask n \<longleftrightarrow> uint v < 2 ^ n"
    by (simp add: word_le_def)
  then show ?thesis
    by (simp add: mask_eq_iff)
qed

lemma le_mask_bits: 
  assumes "n \<le> 32" shows "(v::u32) \<le> mask n \<longleftrightarrow> (\<forall>i. n \<le> i \<and> i < 32 \<longrightarrow> \<not> bit v i)"
proof -
  have "v AND mask n = v \<longleftrightarrow> (\<forall>i. n \<le> i \<and> i < 32 \<longrightarrow> \<not> bit v i)"
  proof
    assume eq: "v AND mask n = v"
    have F: "\<not> bit (v AND mask n) i" if "n \<le> i" for i
      using that by (simp add: bit_simps)
    show "\<forall>i. n \<le> i \<and> i < 32 \<longrightarrow> \<not> bit v i"
      using F unfolding eq by simp
  next
    assume R: "\<forall>i. n \<le> i \<and> i < 32 \<longrightarrow> \<not> bit v i"
    show "v AND mask n = v"
    proof (rule bit_eqI)
      fix i assume "possible_bit TYPE(u32) i"
      then have "i < 32" by (simp add: possible_bit_def)
      then show "bit (v AND mask n) i = bit v i"
        using R by (cases "i < n") (auto simp add: bit_simps)
    qed
  qed
  then show ?thesis
    using le_mask_and[OF assms] by simp
qed

lemma unat_NOT: "unat (NOT a) = 2^32 - 1 - unat a" for a :: u32
proof -
  have "NOT a = - 1 - a" by (simp add: not_eq_complement)
  moreover have "unat (- 1 - a) = unat (- 1 :: u32) - unat a"
    by (rule unat_sub) simp
  ultimately show ?thesis by (simp add: unsigned_minus_1_eq_mask mask_eq_exp_minus_1)
qed

lemma not_le_swap: "NOT a \<le> (b::u32) \<longleftrightarrow> NOT b \<le> a"
proof -
  have "unat a < 2^32" "unat b < 2^32"
    using unsigned_less[of a] unsigned_less[of b] by simp_all
  then show ?thesis
    unfolding word_le_nat_alt unat_NOT by arith
qed

lemma ge_not_mask_bits: 
  assumes "n \<le> 32"
  shows "NOT (mask n) \<le> (v::u32) \<longleftrightarrow> (\<forall>i. n \<le> i \<and> i < 32 \<longrightarrow> bit v i)"
  unfolding not_le_swap[of "mask n" v] le_mask_bits[OF assms]
  by (simp add: bit_simps)

lemma signed_fit:
  fixes v m :: u32
  assumes "n < 32" "bit m n"
  shows "signed_take_bit n (v AND m) = v \<longleftrightarrow>
         (v \<le> mask n \<or> NOT (mask n) \<le> v) \<and> v AND (mask n AND NOT m) = 0"
proof -
  have L: "signed_take_bit n (v AND m) = v \<longleftrightarrow>
        (\<forall>i. n \<le> i \<and> i < 32 \<longrightarrow> bit v i = bit v n) \<and> (\<forall>i<n. bit v i \<longrightarrow> bit m i)"
  proof
    assume eq: "signed_take_bit n (v AND m) = v"
    have F: "bit (signed_take_bit n (v AND m)) i = (bit v (min n i) \<and> bit m (min n i))"
      if "i < 32" for i
      using that by (simp add: bit_simps)
    have *: "bit v i = (bit v (min n i) \<and> bit m (min n i))" if "i < 32" for i
      using F[OF that] unfolding eq .
    show "(\<forall>i. n \<le> i \<and> i < 32 \<longrightarrow> bit v i = bit v n) \<and> (\<forall>i<n. bit v i \<longrightarrow> bit m i)"
    proof (intro conjI allI impI)
      fix i assume i: "n \<le> i \<and> i < 32"
      then have "min n i = n" by simp
      then show "bit v i = bit v n" using *[of i] i assms(2) by metis
    next
      fix i assume i: "i < n" and "bit v i"
      then have "min n i = i" "i < 32" using assms(1) by simp_all
      then show "bit m i" using *[of i] \<open>bit v i\<close> by metis
    qed
  next
    assume R: "(\<forall>i. n \<le> i \<and> i < 32 \<longrightarrow> bit v i = bit v n) \<and> (\<forall>i<n. bit v i \<longrightarrow> bit m i)"
    have F: "bit (signed_take_bit n (v AND m)) i = (bit v (min n i) \<and> bit m (min n i))"
      if "i < 32" for i
      using that by (simp add: bit_simps)
    show "signed_take_bit n (v AND m) = v"
    proof (rule bit_eqI)
      fix i assume "possible_bit TYPE(u32) i"
      then have i: "i < 32" by (simp add: possible_bit_def)
      show "bit (signed_take_bit n (v AND m)) i = bit v i"
      proof (cases "i < n")
        case True
        then have "min n i = i" by simp
        moreover have "bit v i \<longrightarrow> bit m i" using R True by blast
        ultimately show ?thesis using F[OF i] by metis
      next
        case False
        then have "min n i = n" by simp
        moreover have "n \<le> i \<and> i < 32" using False i by simp
        then have "bit v i = bit v n" using R by blast
        ultimately show ?thesis using F[OF i] assms(2) by metis
      qed
    qed
  qed
  have R: "v AND (mask n AND NOT m) = 0 \<longleftrightarrow> (\<forall>i<n. bit v i \<longrightarrow> bit m i)"
  proof
    assume eq: "v AND (mask n AND NOT m) = 0"
    have F: "bit (v AND (mask n AND NOT m)) i = (bit v i \<and> \<not> bit m i)" if "i < n" for i
      using that assms(1) by (simp add: bit_simps)
    show "\<forall>i<n. bit v i \<longrightarrow> bit m i"
    proof (intro allI impI)
      fix i assume "i < n" "bit v i"
      then show "bit m i"
        using F[of i] unfolding eq by simp
    qed
  next
    assume H: "\<forall>i<n. bit v i \<longrightarrow> bit m i"
    show "v AND (mask n AND NOT m) = 0"
    proof (rule bit_eqI)
      fix i assume "possible_bit TYPE(u32) i"
      have "bit (v AND (mask n AND NOT m)) i \<longrightarrow> i < n \<and> bit v i \<and> \<not> bit m i"
        by (simp add: bit_simps)
      then have "\<not> bit (v AND (mask n AND NOT m)) i"
        using H by blast
      then show "bit (v AND (mask n AND NOT m)) i = bit (0::u32) i"
        by simp
    qed
  qed
  have n: "n \<le> 32" using assms by simp
  have S: "(\<forall>i. n \<le> i \<and> i < 32 \<longrightarrow> bit v i = bit v n) \<longleftrightarrow>
           (\<forall>i. n \<le> i \<and> i < 32 \<longrightarrow> \<not> bit v i) \<or> (\<forall>i. n \<le> i \<and> i < 32 \<longrightarrow> bit v i)"
  proof (cases "bit v n")
    case True
    then show ?thesis using assms(1) by (metis order_refl)
  next
    case False
    then show ?thesis using assms(1) by (metis order_refl)
  qed
  show ?thesis
    unfolding L R le_mask_bits[OF n] ge_not_mask_bits[OF n] S ..
qed


lemma unsigned_roundtrip:
  "drop_bit s ((push_bit s (v::u32) AND m) AND m) = v \<longleftrightarrow> drop_bit s m AND v = v"
proof -
  have "drop_bit s ((push_bit s v AND m) AND m) = drop_bit s m AND v"
    by (rule bit_eqI) (auto simp add: bit_simps dest: bit_imp_le_length)
  then show ?thesis by simp
qed

lemma unsigned_fits_iff:
  assumes "\<not> is_signed d"
  shows "Fits d v \<longleftrightarrow> spec_decode d (Fit d v) = v"
  unfolding Fits_def spec_decode_def Fit_def Let_def
  using assms unsigned_roundtrip[of "shift d" v "mask_v d"] by simp

lemma signed_fits_iff:
  assumes sg: "is_signed d" and sh: "shift d = 0"
    and n: "top_bit (mask_v d) = n" "n < 32" "bit (mask_v d) n"
    and hi: "(mask_v d AND (mask_v d XOR drop_bit 1 (mask_v d))) - 1 = mask n"
    and lo: "(mask_v d AND (mask_v d XOR push_bit 1 (mask_v d))) - 1 = mask n AND NOT (mask_v d)"
  shows "Fits d v \<longleftrightarrow> spec_decode d (Fit d v) = v"
proof -
  have "Fits d v \<longleftrightarrow> (v \<le> mask n \<or> NOT (mask n) \<le> v) \<and> v AND (mask n AND NOT (mask_v d)) = 0"
    unfolding Fits_def Let_def using sg sh hi lo by simp
  moreover have "spec_decode d (Fit d v) = signed_take_bit n (v AND mask_v d)"
    using sg sh n(1) by (simp add: spec_decode_def Fit_def Let_def and.assoc)
  ultimately show ?thesis
    using signed_fit[OF n(2) n(3), of v] by simp
qed

lemma mask_v_BD: "mask_v desc_BD = 0xFFFC"
  by (simp add: desc_BD_def mk_desc_def mask_bits_def)
lemma mask_v_LI: "mask_v desc_LI = 0x03FFFFFC"
  by (simp add: desc_LI_def mk_desc_def mask_bits_def)
lemma mask_v_Offd: "mask_v desc_Offd = 0xFFFF"
  by (simp add: desc_Offd_def mk_desc_def mask_bits_def)
lemma mask_v_OffdPs: "mask_v desc_OffdPs = 0x1FFF"
  by (simp add: desc_OffdPs_def mk_desc_def mask_bits_def)
lemma mask_v_SIMM: "mask_v desc_SIMM = 0xFFFF"
  by (simp add: desc_SIMM_def mk_desc_def mask_bits_def)

lemma top_bit_vals:
  "top_bit 0xFFFC = 15" "top_bit 0x03FFFFFC = 25" "top_bit 0xFFFF = 15" "top_bit 0x1FFF = 12"
  by (simp_all add: top_bit_def eval_nat_numeral)

lemma BD_ok: "Fits desc_BD v \<longleftrightarrow> spec_decode desc_BD (Fit desc_BD v) = v"
proof (rule signed_fits_iff[where n = 15])
  show "is_signed desc_BD" "shift desc_BD = 0"
    by (simp_all add: desc_BD_def mk_desc_def)
qed (simp_all add: mask_v_BD top_bit_vals mask_eq_exp_minus_1)

lemma LI_ok: "Fits desc_LI v \<longleftrightarrow> spec_decode desc_LI (Fit desc_LI v) = v"
proof (rule signed_fits_iff[where n = 25])
  show "is_signed desc_LI" "shift desc_LI = 0"
    by (simp_all add: desc_LI_def mk_desc_def)
qed (simp_all add: mask_v_LI top_bit_vals mask_eq_exp_minus_1)

lemma Offd_ok: "Fits desc_Offd v \<longleftrightarrow> spec_decode desc_Offd (Fit desc_Offd v) = v"
proof (rule signed_fits_iff[where n = 15])
  show "is_signed desc_Offd" "shift desc_Offd = 0"
    by (simp_all add: desc_Offd_def mk_desc_def)
qed (simp_all add: mask_v_Offd top_bit_vals mask_eq_exp_minus_1)

lemma OffdPs_ok: "Fits desc_OffdPs v \<longleftrightarrow> spec_decode desc_OffdPs (Fit desc_OffdPs v) = v"
proof (rule signed_fits_iff[where n = 12])
  show "is_signed desc_OffdPs" "shift desc_OffdPs = 0"
    by (simp_all add: desc_OffdPs_def mk_desc_def)
qed (simp_all add: mask_v_OffdPs top_bit_vals mask_eq_exp_minus_1)

lemma SIMM_ok: "Fits desc_SIMM v \<longleftrightarrow> spec_decode desc_SIMM (Fit desc_SIMM v) = v"
proof (rule signed_fits_iff[where n = 15])
  show "is_signed desc_SIMM" "shift desc_SIMM = 0"
    by (simp_all add: desc_SIMM_def mk_desc_def)
qed (simp_all add: mask_v_SIMM top_bit_vals mask_eq_exp_minus_1)

lemma catalogue_cases:
  assumes "d \<in> set catalogue"
  shows "\<not> is_signed d \<or> d = desc_BD \<or> d = desc_LI \<or> d = desc_Offd \<or> d = desc_OffdPs \<or> d = desc_SIMM"
proof -
  have u: "\<not> is_signed (mk_desc m s False)" for m s
    by (simp add: mk_desc_def)
  show ?thesis
    using assms unfolding catalogue_def set_simps insert_iff empty_iff
    by (elim disjE)
      (simp_all add: u desc_A_def desc_B_def desc_BI_def desc_BO_def desc_C_def desc_Crba_def
        desc_Crbb_def desc_Crbd_def desc_Crfd_def desc_Crfs_def desc_CRM_def desc_D_def
        desc_FM_def desc_I1_def desc_I2_def desc_IMM_def desc_L_def desc_MB_def desc_ME_def
        desc_NB_def desc_S_def desc_SH_def desc_SPR_def desc_SR_def desc_TO_def desc_TPR_def
        desc_UIMM_def desc_W1_def desc_W2_def)
qed

text \<open>
  Claim C2. For every descriptor \<open>d\<close> of the operand catalogue and every 32-bit value
  \<open>v\<close>, \<open>Fits d v\<close> holds exactly when decoding the encoded field \<open>Fit d v\<close>
  (masking it out, shifting it back down and, for a signed descriptor, extending the sign
  from the top bit of the field) gives \<open>v\<close> back.
\<close>

theorem operand_fit_decidable:
  "d \<in> set catalogue \<Longrightarrow> Fits d v \<longleftrightarrow> spec_decode d (Fit d v) = v"
  using catalogue_cases[of d] unsigned_fits_iff[of d v] BD_ok LI_ok Offd_ok OffdPs_ok SIMM_ok
  by blast

text \<open>
  The theorem at the branch-displacement descriptor: \<open>-4\<close> fits and round-trips,
  \<open>0x8000\<close> is out of the signed range and does not.
\<close>

theorem operand_fit_decidable_witness:
  "desc_BD \<in> set catalogue \<and> Fits desc_BD 0xFFFFFFFC
   \<and> spec_decode desc_BD (Fit desc_BD 0xFFFFFFFC) = 0xFFFFFFFC
   \<and> \<not> Fits desc_BD 0x8000 \<and> spec_decode desc_BD (Fit desc_BD 0x8000) \<noteq> 0x8000"
proof -
  have c: "desc_BD \<in> set catalogue" by (simp add: catalogue_def)
  have f: "Fits desc_BD 0xFFFFFFFC"
    by (simp add: Fits_def desc_BD_def mk_desc_def mask_bits_def)
  have g: "\<not> Fits desc_BD 0x8000"
    by (simp add: Fits_def desc_BD_def mk_desc_def mask_bits_def)
  show ?thesis
    using c f g operand_fit_decidable[OF c, of "0xFFFFFFFC"] operand_fit_decidable[OF c, of "0x8000"]
    by simp
qed

section \<open>End address of a block (C3)\<close>

lemma chunk_size_bytes: "chunk_size c = of_nat (chunk_bytes c)"
  by (cases c) (simp_all add: chunk_size_def chunk_bytes_def mult.commute)

lemma foldl_chunk_size:
  "foldl (\<lambda>acc chunk. acc + chunk_size chunk) a cs = a + of_nat (sum_list (map chunk_bytes cs))"
  by (induction cs arbitrary: a) (simp_all add: chunk_size_bytes add.assoc)

text \<open>
  Claim C3. The end address of a block is its base address plus the sum of the sizes of
  its chunks, \<open>4 * n\<close> for a chunk of \<open>n\<close> instructions, the length for a byte chunk and
  the count for a pad chunk. The end address is not stored: it is computed from the
  chunks at every call, so the equation holds of every block in every state of the
  generator. Addresses are \<open>u32\<close> and the sum is taken modulo \<open>2 ^ 32\<close>.
\<close>

theorem BlockEndAddress_sum:
  "unat (BlockEndAddress b) = (unat (block_address b) + (\<Sum>c\<leftarrow>chunks b. chunk_bytes c)) mod 2 ^ 32"
  by (simp add: BlockEndAddress_def foldl_chunk_size unat_word_ariths unat_of_nat mod_add_right_eq)

section \<open>Alignment of blocks (C9)\<close>

lemma align_mask_mask: "unat bits \<le> 30 \<Longrightarrow> align_mask_of bits = Some (mask (unat bits))"
  by (simp add: align_mask_of_def mask_eq_exp_minus_1 push_bit_eq_mult)

lemma and_mask_zero_dvd: "(w :: u32) AND mask n = 0 \<longleftrightarrow> 2 ^ n dvd unat w"
  by (simp add: and_mask_dvd_nat)

lemma align_up_not_dvd:
  assumes "\<not> m dvd a" "0 < m"
  shows "align_up a m = (a div m + 1) * m"
proof -
  have r: "1 \<le> a mod m" "a mod m < m"
    using assms by (auto simp add: dvd_eq_mod_eq_0 Suc_leI)
  define q where "q = a div m"
  define s where "s = a mod m - 1"
  have a: "a = q * m + (s + 1)"
    using r by (simp add: q_def s_def)
  have s: "s < m"
    using r by (simp add: s_def)
  have "a + m - 1 = (q + 1) * m + s"
    unfolding a by (simp add: algebra_simps)
  moreover have "((q + 1) * m + s) div m = (q + 1) + s div m"
    using assms(2) by (subst div_mult_self3) simp_all
  moreover have "s div m = 0"
    using s by (rule div_less)
  ultimately show ?thesis
    by (simp add: align_up_def q_def)
qed

lemma new_base:
  fixes cur :: u32
  shows "push_bit n 1 + (cur AND NOT (mask n)) = of_nat ((unat cur div 2 ^ n + 1) * 2 ^ n)"
proof -
  have a: "cur AND NOT (mask n) = push_bit n (drop_bit n cur)"
    by (rule bit_eqI) (auto simp add: bit_simps)
  have "unat (drop_bit n cur) = unat cur div 2 ^ n"
    by (subst unat_drop_bit_eq) (rule drop_bit_eq_div)
  moreover have "drop_bit n cur = of_nat (unat (drop_bit n cur))"
    by simp
  ultimately have b: "drop_bit n cur = of_nat (unat cur div 2 ^ n)"
    by (rule back_subst[where P = "\<lambda>k. drop_bit n cur = of_nat k", rotated])
  have "push_bit n 1 + push_bit n (of_nat (unat cur div 2 ^ n))
          = (of_nat ((unat cur div 2 ^ n + 1) * 2 ^ n) :: u32)"
    by (simp add: push_bit_eq_mult algebra_simps)
  then show ?thesis
    unfolding a b .
qed

text \<open>
  Claim C9 is stated for every \<open>BITS\<close>. \<open>StartBlockAlign\<close> computes \<open>(1 << bits) - 1\<close> on
  \<open>int\<close>, and nothing on the way from the directive checks the operand. At the end address
  \<open>0x80000004\<close>, which is a multiple of neither \<open>2 ^ 31\<close> nor \<open>2 ^ 32\<close>, the subtraction
  overflows for \<open>BITS = 31\<close> and the shift is undefined for \<open>BITS = 32\<close>: the call has no
  defined result, so no block at the rounded address.
\<close>

theorem StartBlockAlign_large_bits:
  "\<not> 2 ^ 31 dvd unat (CurrentAddress (GekkoIRPlugin_init 0x80000004 RelAddrDoublePass kAlign 0))
   \<and> StartBlockAlign 31 (GekkoIRPlugin_init 0x80000004 RelAddrDoublePass kAlign 0) = None
   \<and> \<not> 2 ^ 32 dvd unat (CurrentAddress (GekkoIRPlugin_init 0x80000004 RelAddrDoublePass kAlign 0))
   \<and> StartBlockAlign 32 (GekkoIRPlugin_init 0x80000004 RelAddrDoublePass kAlign 0) = None"
  by (simp add: StartBlockAlign_def align_mask_of_def CurrentAddress_def active_block_def
      GekkoIRPlugin_init_def BlockEndAddress_def IRBlock_at_def)

text \<open>
  Claim C9 as amended, for \<open>BITS\<close> at most 30, the range in which the shift and the
  subtraction of the source are defined on \<open>int\<close>. \<open>.align BITS\<close> ends in
  \<open>StartBlockAlign\<close>. When the end address of the active block is a multiple of
  \<open>2 ^ BITS\<close> the state is unchanged and no block is started. Otherwise one block is
  appended, empty, whose base address is the end address rounded up to the next multiple
  of \<open>2 ^ BITS\<close> (as a \<open>u32\<close>, that is modulo \<open>2 ^ 32\<close>).
\<close>

theorem StartBlockAlign_rounds_up:
  assumes "unat bits \<le> 30"
  shows "(2 ^ unat bits dvd unat (CurrentAddress p) \<longrightarrow> StartBlockAlign bits p = Some p) \<and>
         (\<not> 2 ^ unat bits dvd unat (CurrentAddress p) \<longrightarrow>
            (\<exists>p'. StartBlockAlign bits p = Some p' \<and>
                  blocks (output_result p') = blocks (output_result p) @
                    [\<lparr> chunks = [],
                       block_address = of_nat (align_up (unat (CurrentAddress p)) (2 ^ unat bits)) \<rparr>]))"
proof (intro conjI impI)
  assume "2 ^ unat bits dvd unat (CurrentAddress p)"
  then show "StartBlockAlign bits p = Some p"
    using assms
    by (simp add: StartBlockAlign_def align_mask_mask CurrentAddress_def Let_def and_mask_zero_dvd)
next
  assume nd: "\<not> 2 ^ unat bits dvd unat (CurrentAddress p)"
  then have "BlockEndAddress (active_block p) AND mask (unat bits) \<noteq> 0"
    by (simp add: and_mask_zero_dvd CurrentAddress_def)
  then have "StartBlockAlign bits p =
      Some (StartBlock (push_bit (unat bits) 1 + (CurrentAddress p AND NOT (mask (unat bits)))) p)"
    using assms by (simp add: StartBlockAlign_def align_mask_mask CurrentAddress_def Let_def)
  also have "push_bit (unat bits) 1 + (CurrentAddress p AND NOT (mask (unat bits)))
      = of_nat (align_up (unat (CurrentAddress p)) (2 ^ unat bits))"
    by (simp only: new_base align_up_not_dvd[OF nd] zero_less_power zero_less_numeral)
  finally show "\<exists>p'. StartBlockAlign bits p = Some p' \<and>
                  blocks (output_result p') = blocks (output_result p) @
                    [\<lparr> chunks = [],
                       block_address = of_nat (align_up (unat (CurrentAddress p)) (2 ^ unat bits)) \<rparr>]"
    by (simp add: StartBlock_def IRBlock_at_def)
qed


text \<open>
  The theorem at \<open>BITS = 4\<close>: from the end address \<open>0x80000004\<close> a block is started at
  \<open>0x80000010\<close>; from \<open>0x80000010\<close> nothing happens.
\<close>

lemma CurrentAddress_init:
  "CurrentAddress (GekkoIRPlugin_init base m d s) = base"
  by (simp add: CurrentAddress_def active_block_def GekkoIRPlugin_init_def BlockEndAddress_def
      IRBlock_at_def)

theorem StartBlockAlign_rounds_up_witness:
  "unat (4 :: u32) \<le> 30
   \<and> \<not> 2 ^ unat (4 :: u32) dvd unat (CurrentAddress (GekkoIRPlugin_init 0x80000004 RelAddrDoublePass kAlign 0))
   \<and> (\<exists>p'. StartBlockAlign 4 (GekkoIRPlugin_init 0x80000004 RelAddrDoublePass kAlign 0) = Some p'
          \<and> blocks (output_result p') =
              [\<lparr> chunks = [], block_address = 0x80000004 \<rparr>,
               \<lparr> chunks = [], block_address = 0x80000010 \<rparr>])
   \<and> 2 ^ unat (4 :: u32) dvd unat (CurrentAddress (GekkoIRPlugin_init 0x80000010 RelAddrDoublePass kAlign 0))
   \<and> StartBlockAlign 4 (GekkoIRPlugin_init 0x80000010 RelAddrDoublePass kAlign 0)
       = Some (GekkoIRPlugin_init 0x80000010 RelAddrDoublePass kAlign 0)"
proof -
  have b: "unat (4 :: u32) \<le> 30"
    by simp
  have u: "\<not> 2 ^ unat (4 :: u32) dvd unat (CurrentAddress (GekkoIRPlugin_init 0x80000004 RelAddrDoublePass kAlign 0))"
    by (simp add: CurrentAddress_init)
  have a: "2 ^ unat (4 :: u32) dvd unat (CurrentAddress (GekkoIRPlugin_init 0x80000010 RelAddrDoublePass kAlign 0))"
    by (simp add: CurrentAddress_init)
  have r: "align_up 2147483652 16 = 2147483664"
    by (simp add: align_up_def)
  have i: "blocks (output_result (GekkoIRPlugin_init 0x80000004 RelAddrDoublePass kAlign 0))
      = [\<lparr> chunks = [], block_address = 0x80000004 \<rparr>]"
    by (simp add: GekkoIRPlugin_init_def IRBlock_at_def)
  show ?thesis
    using b u a
      StartBlockAlign_rounds_up[OF b, of "GekkoIRPlugin_init 0x80000004 RelAddrDoublePass kAlign 0"]
      StartBlockAlign_rounds_up[OF b, of "GekkoIRPlugin_init 0x80000010 RelAddrDoublePass kAlign 0"]
    by (simp add: CurrentAddress_init r i)
qed

section \<open>Symbol tables (C7)\<close>

lemma same_tables_refl [simp]: "same_tables p p"
  by (simp add: same_tables_def)

lemma same_tables_trans: "same_tables p q \<Longrightarrow> same_tables q r \<Longrightarrow> same_tables p r"
  by (simp add: same_tables_def)

lemma st_plugin_error [simp]: "same_tables p (plugin_error msg p)"
  by (simp add: same_tables_def plugin_error_def)

lemma st_set_active_block [simp]: "same_tables p (set_active_block b p)"
  by (simp add: same_tables_def set_active_block_def)

lemma st_append_bytes [simp]: "same_tables p (append_bytes bs p)"
  by (simp add: same_tables_def append_bytes_def set_active_block_def Let_def split: prod.splits)

lemma st_append_pad [simp]: "same_tables p (append_pad n p)"
  by (simp add: same_tables_def append_pad_def set_active_block_def Let_def split: prod.splits)

lemma st_append_inst [simp]: "same_tables p (append_inst i p)"
  by (simp add: same_tables_def append_inst_def set_active_block_def Let_def split: prod.splits)

lemma st_AddLiteral [simp]: "same_tables p (AddLiteral l p)"
  by (simp add: same_tables_def AddLiteral_def)

lemma st_AddSymbolResolve [simp]: "same_tables p (AddSymbolResolve s a p)"
  by (simp add: same_tables_def AddSymbolResolve_def Let_def)

lemma st_StartBlock [simp]: "same_tables p (StartBlock a p)"
  by (simp add: same_tables_def StartBlock_def)

lemma st_AddBinaryEvaluator: "AddBinaryEvaluator e p = Some p' \<Longrightarrow> same_tables p p'"
  by (auto simp add: same_tables_def AddBinaryEvaluator_def split: list.splits)

lemma st_AddUnaryEvaluator: "AddUnaryEvaluator e p = Some p' \<Longrightarrow> same_tables p p'"
  by (auto simp add: same_tables_def AddUnaryEvaluator_def split: list.splits)

lemma st_AddAbsoluteAddressConv: "AddAbsoluteAddressConv p = Some p' \<Longrightarrow> same_tables p p'"
  by (auto simp add: same_tables_def AddAbsoluteAddressConv_def Let_def split: list.splits)

lemma st_PushCast: "PushCast v p = Some p' \<Longrightarrow> same_tables p p'"
  by (auto simp add: same_tables_def PushCast_def)

lemma st_EvalOperatorAbs: "EvalOperatorAbs operation p = Some p' \<Longrightarrow> same_tables p p'"
  by (auto simp add: same_tables_def EvalOperatorAbs_def)

lemma st_EvalOperatorRel: "EvalOperatorRel operation p = Some p' \<Longrightarrow> same_tables p p'"
  by (cases operation) (auto simp add: EvalOperatorRel_def dest: st_AddBinaryEvaluator st_AddUnaryEvaluator)

lemma st_SaveOperandFixup: "SaveOperandFixup l r p = Some p' \<Longrightarrow> same_tables p p'"
  by (auto simp add: same_tables_def SaveOperandFixup_def split: list.splits)

lemma st_FinishInstruction [simp]: "same_tables p (FinishInstruction p)"
  by (simp add: same_tables_def FinishInstruction_def append_inst_def set_active_block_def Let_def split: prod.splits)

lemma st_StartInstruction [simp]: "same_tables p (StartInstruction i e p)"
  by (simp add: same_tables_def StartInstruction_def)

lemma st_EvalTerminalRel: "EvalTerminalRel tp tok p = Some p' \<Longrightarrow> same_tables p p'"
  by (auto simp add: EvalTerminalRel_def split: option.splits if_splits)

lemma st_EvalTerminalAbs_int: "EvalTerminalAbs_int w vec tp tok p = Some p' \<Longrightarrow> same_tables p p'"
  by (auto simp add: EvalTerminalAbs_int_def split: option.splits if_splits) (simp_all add: same_tables_def)

lemma st_EvalTerminalAbs_float: "EvalTerminalAbs_float fc tp tok p = Some p' \<Longrightarrow> same_tables p p'"
  by (auto simp add: EvalTerminalAbs_float_def split: option.splits if_splits EvalStack.splits) (simp_all add: same_tables_def)

lemma st_EvalTerminalAbs: "EvalTerminalAbs fc tp tok p = Some p' \<Longrightarrow> same_tables p p'"
  by (auto simp add: EvalTerminalAbs_def split: EvalStack.splits dest: st_EvalTerminalAbs_int st_EvalTerminalAbs_float)

lemma st_foldl_AddBytes: "same_tables p (foldl (\<lambda>q val. AddBytes val q) p vec)"
proof (induction vec arbitrary: p)
  case Nil
  show ?case by simp
next
  case (Cons v vec)
  have "same_tables p (AddBytes v p)"
    by (simp add: AddBytes_def)
  then show ?case
    using Cons[of "AddBytes v p"] by (auto intro: same_tables_trans)
qed

lemma st_eval_stack_upd [simp]: "same_tables p (q\<lparr> eval_stack := s \<rparr>) = same_tables p q"
  by (simp add: same_tables_def)

lemma st_OnResolvedExprPost [simp]: "same_tables p (OnResolvedExprPost p)"
  by (auto simp add: OnResolvedExprPost_def st_foldl_AddBytes split: EvalStack.splits)

lemma st_OnDirectivePre [simp]: "same_tables p (OnDirectivePre d p)"
  by (simp add: same_tables_def OnDirectivePre_def)

lemma st_PadAlign: "PadAlign bits p = Some p' \<Longrightarrow> same_tables p p'"
  by (auto simp add: PadAlign_def Let_def split: option.splits if_splits)

lemma st_StartBlockAlign: "StartBlockAlign bits p = Some p' \<Longrightarrow> same_tables p p'"
  by (auto simp add: StartBlockAlign_def Let_def split: option.splits if_splits)

lemma st_AddStringBytes: "AddStringBytes s z p = Some p' \<Longrightarrow> same_tables p p'"
  by (auto simp add: AddStringBytes_def split: option.splits)

lemma st_OnDirectivePost:
  "OnDirectivePost d p = Some p' \<Longrightarrow> d \<noteq> kDefVar \<Longrightarrow> same_tables p p'"
  by (cases d)
    (auto simp add: OnDirectivePost_def PadSpace_def split: option.splits bind_splits
      dest: st_PadAlign st_StartBlockAlign st_AddStringBytes)

lemma st_OnOperator: "OnOperator operation p = Some p' \<Longrightarrow> same_tables p p'"
  by (auto simp add: OnOperator_def split: if_splits dest: st_EvalOperatorRel st_EvalOperatorAbs)

lemma st_OnTerminal: "OnTerminal fc tp tok p = Some p' \<Longrightarrow> same_tables p p'"
  by (auto simp add: OnTerminal_def split: if_splits dest: st_EvalTerminalRel st_EvalTerminalAbs)
    (simp add: same_tables_def)

lemma st_push_symbol_abs: "push_symbol_abs s p = Some (Some p') \<Longrightarrow> same_tables p p'"
  by (auto simp add: push_symbol_abs_def split: option.splits dest: st_PushCast)

lemma st_OnHiaddr: "OnHiaddr s p = Some p' \<Longrightarrow> same_tables p p'"
  unfolding OnHiaddr_def
  by (auto split: if_splits option.splits bind_splits
      dest!: st_AddBinaryEvaluator st_push_symbol_abs st_PushCast st_EvalOperatorAbs
      intro: same_tables_trans)
    (auto simp add: same_tables_def AddLiteral_def AddSymbolResolve_def Let_def)

lemma st_OnLoaddr: "OnLoaddr s p = Some p' \<Longrightarrow> same_tables p p'"
  unfolding OnLoaddr_def
  by (auto split: if_splits option.splits bind_splits
      dest!: st_AddBinaryEvaluator st_push_symbol_abs st_PushCast st_EvalOperatorAbs
      intro: same_tables_trans)
    (auto simp add: same_tables_def AddLiteral_def AddSymbolResolve_def Let_def)

lemma st_OnCloseParen: "OnCloseParen t p = Some p' \<Longrightarrow> same_tables p p'"
  unfolding OnCloseParen_def
  by (auto split: if_splits bind_splits
      dest!: st_AddAbsoluteAddressConv st_PushCast st_EvalOperatorAbs intro: same_tables_trans)

lemma inv_same_tables: "tables_inv p \<Longrightarrow> same_tables p p' \<Longrightarrow> tables_inv p'"
  by (simp add: tables_inv_def same_tables_def)

lemma inv_OnLabelDecl: "tables_inv p \<Longrightarrow> tables_inv (OnLabelDecl name p)"
  by (auto simp add: OnLabelDecl_def tables_inv_def plugin_error_def)

lemma inv_OnVarDecl: "tables_inv p \<Longrightarrow> tables_inv (OnVarDecl name p)"
  by (auto simp add: OnVarDecl_def tables_inv_def plugin_error_def)

lemma inv_DefVar:
  assumes "tables_inv p" "OnDirectivePost kDefVar p = Some p'"
  shows "tables_inv p'"
proof -
  obtain name v where n: "active_var p = Some name" "back_u64 (eval_stack p) = Some v"
    and p': "p' = p\<lparr> constants := (constants p)(name \<mapsto> v), active_var := None,
                       eval_stack := StackU8 [] \<rparr>"
    using assms(2) by (auto simp add: OnDirectivePost_def split: option.splits)
  have "name \<in> dom (constants p)"
    using assms(1) n(1) by (simp add: tables_inv_def)
  then have "dom ((constants p)(name \<mapsto> v)) = dom (constants p)"
    by auto
  then show ?thesis
    using assms(1) unfolding p' tables_inv_def by simp
qed

lemma inv_do_callout:
  assumes "tables_inv p" "do_callout fc c p = Some p'"
  shows "tables_inv p'"
proof (cases c)
  case (DirectivePre d)
  then have "same_tables p p'" using assms(2) by auto
  then show ?thesis using assms(1) by (rule inv_same_tables[rotated])
next
  case (DirectivePost d)
  show ?thesis
  proof (cases "d = kDefVar")
    case True
    then show ?thesis using assms DirectivePost inv_DefVar by simp
  next
    case False
    then have "same_tables p p'" using assms(2) DirectivePost st_OnDirectivePost by simp
    then show ?thesis using assms(1) by (rule inv_same_tables[rotated])
  qed
next
  case (InstructionPre info ext)
  then have "same_tables p p'"
    using assms(2) by (auto simp add: OnInstructionPre_def same_tables_def StartInstruction_def)
  then show ?thesis using assms(1) by (rule inv_same_tables[rotated])
next
  case (InstructionPost info ext)
  then have "same_tables p p'"
    using assms(2) by (auto simp add: OnInstructionPost_def)
  then show ?thesis using assms(1) by (rule inv_same_tables[rotated])
next
  case OperandPre
  then have "same_tables p p'"
    using assms(2) by (auto simp add: OnOperandPre_def same_tables_def)
  then show ?thesis using assms(1) by (rule inv_same_tables[rotated])
next
  case OperandPost
  then have "same_tables p p'"
    using assms(2) by (auto simp add: OnOperandPost_def dest: st_SaveOperandFixup)
  then show ?thesis using assms(1) by (rule inv_same_tables[rotated])
next
  case ResolvedExprPre
  then show ?thesis using assms by simp
next
  case ResolvedExprPost
  then have "same_tables p p'" using assms(2) by auto
  then show ?thesis using assms(1) by (rule inv_same_tables[rotated])
next
  case (Operator operation)
  then have "same_tables p p'" using assms(2) st_OnOperator by simp
  then show ?thesis using assms(1) by (rule inv_same_tables[rotated])
next
  case (TerminalTok tp tok)
  then have "same_tables p p'" using assms(2) st_OnTerminal by simp
  then show ?thesis using assms(1) by (rule inv_same_tables[rotated])
next
  case (Hiaddr name)
  then have "same_tables p p'" using assms(2) st_OnHiaddr by simp
  then show ?thesis using assms(1) by (rule inv_same_tables[rotated])
next
  case (Loaddr name)
  then have "same_tables p p'" using assms(2) st_OnLoaddr by simp
  then show ?thesis using assms(1) by (rule inv_same_tables[rotated])
next
  case (OpenParen t)
  then show ?thesis using assms by simp
next
  case (CloseParen t)
  then have "same_tables p p'" using assms(2) st_OnCloseParen by simp
  then show ?thesis using assms(1) by (rule inv_same_tables[rotated])
next
  case (LabelDecl name)
  then show ?thesis using assms inv_OnLabelDecl by auto
next
  case (VarDecl name)
  then show ?thesis using assms inv_OnVarDecl by auto
next
  case (ParserError msg)
  then have "same_tables p p'" using assms(2) by auto
  then show ?thesis using assms(1) by (rule inv_same_tables[rotated])
qed

lemma inv_with_lexer [simp]: "tables_inv (with_lexer lx p) = tables_inv p"
  by (simp add: tables_inv_def with_lexer_def)

lemma inv_ParseProgram:
  "tables_inv p \<Longrightarrow> ParseProgram fc calls p = Some p' \<Longrightarrow> tables_inv p'"
proof (induction calls arbitrary: p)
  case Nil
  then show ?case by simp
next
  case (Cons a calls)
  obtain lx c where a: "a = (lx, c)" by (cases a)
  show ?case
  proof (cases "error (owner p) = None")
    case False
    then show ?thesis using Cons.prems a by simp
  next
    case True
    then obtain q where q: "do_callout fc c (with_lexer lx p) = Some q" "ParseProgram fc calls q = Some p'"
      using Cons.prems(2) a by (auto simp add: with_lexer_def split: option.splits)
    have "tables_inv q"
      using inv_do_callout[OF _ q(1)] Cons.prems(1) by simp
    then show ?thesis
      using Cons.IH q(2) by blast
  qed
qed

lemma inv_initial: "tables_inv (initial_plugin input base m d s)"
  by (simp add: tables_inv_def initial_plugin_def GekkoIRPlugin_init_def)

lemma EmitErrorHere_message:
  assumes "token_type (fst (Lookahead (lexer st))) \<noteq> kInvalid"
  shows "\<exists>e. error (EmitErrorHere msg st) = Some e \<and> message e = msg"
  using assms by (cases "Lookahead (lexer st)") (simp add: EmitErrorHere_def)

lemma plugin_error_rejects:
  assumes "token_type (fst (Lookahead lx)) \<noteq> kInvalid"
  shows "(\<exists>e. error (owner (plugin_error msg (with_lexer lx p))) = Some e \<and> message e = msg)
       \<and> same_tables p (plugin_error msg (with_lexer lx p))"
  using EmitErrorHere_message[of "(owner p)\<lparr> lexer := lx \<rparr>" msg] assms
  by (simp add: plugin_error_def with_lexer_def same_tables_def)

text \<open>
  Claim C7. In every state the parser can bring the generator to, no identifier is in
  both the label table and the constant table, and the set of defined names is the union
  of the two. Declaring a name again that is in either table, as a label
  (\<open>OnLabelDecl\<close>) or as a constant (\<open>OnVarDecl\<close>), raises the error
  \<open>Label/Constant X is already defined\<close> and leaves both tables as they were. The parser
  makes these two callouts with an identifier as the next token, hence not an invalid one.
\<close>

theorem at_most_one_definition:
  assumes "ParseProgram fc calls (initial_plugin input base m d s) = Some p"
  shows "dom (labels p) \<inter> dom (constants p) = {}
       \<and> symset p = dom (labels p) \<union> dom (constants p)
       \<and> (\<forall>name lx. name \<in> dom (labels p) \<union> dom (constants p)
             \<longrightarrow> token_type (fst (Lookahead lx)) \<noteq> kInvalid
             \<longrightarrow> (\<exists>e. error (owner (OnLabelDecl name (with_lexer lx p))) = Some e
                      \<and> message e = ''Label/Constant '' @ name @ '' is already defined'')
                 \<and> labels (OnLabelDecl name (with_lexer lx p)) = labels p
                 \<and> constants (OnLabelDecl name (with_lexer lx p)) = constants p
                 \<and> (\<exists>e. error (owner (OnVarDecl name (with_lexer lx p))) = Some e
                      \<and> message e = ''Label/Constant '' @ name @ '' is already defined'')
                 \<and> labels (OnVarDecl name (with_lexer lx p)) = labels p
                 \<and> constants (OnVarDecl name (with_lexer lx p)) = constants p)"
proof -
  have inv: "tables_inv p"
    using inv_ParseProgram[OF inv_initial assms] .
  have rej: "(\<exists>e. error (owner (OnLabelDecl name (with_lexer lx p))) = Some e
                      \<and> message e = ''Label/Constant '' @ name @ '' is already defined'')
                 \<and> labels (OnLabelDecl name (with_lexer lx p)) = labels p
                 \<and> constants (OnLabelDecl name (with_lexer lx p)) = constants p
                 \<and> (\<exists>e. error (owner (OnVarDecl name (with_lexer lx p))) = Some e
                      \<and> message e = ''Label/Constant '' @ name @ '' is already defined'')
                 \<and> labels (OnVarDecl name (with_lexer lx p)) = labels p
                 \<and> constants (OnVarDecl name (with_lexer lx p)) = constants p"
    if n: "name \<in> dom (labels p) \<union> dom (constants p)"
      and t: "token_type (fst (Lookahead lx)) \<noteq> kInvalid" for name lx
  proof -
    have "name \<in> symset (with_lexer lx p)"
      using inv n by (simp add: tables_inv_def with_lexer_def)
    then have l: "OnLabelDecl name (with_lexer lx p) = plugin_error (already_defined name) (with_lexer lx p)"
      and v: "OnVarDecl name (with_lexer lx p) = plugin_error (already_defined name) (with_lexer lx p)"
      by (simp_all add: OnLabelDecl_def OnVarDecl_def)
    show ?thesis
      unfolding l v using plugin_error_rejects[OF t, of "already_defined name" p]
      by (simp add: same_tables_def already_defined_def)
  qed
  have d: "dom (labels p) \<inter> dom (constants p) = {}"
    and u: "symset p = dom (labels p) \<union> dom (constants p)"
    using inv by (simp_all add: tables_inv_def)
  show ?thesis
  proof (intro conjI allI impI)
    show "dom (labels p) \<inter> dom (constants p) = {}" by (rule d)
    show "symset p = dom (labels p) \<union> dom (constants p)" by (rule u)
  qed (use rej in blast)+
qed

text \<open>
  The theorem on the label \<open>a\<close> declared twice: the first declaration enters it in the
  label table, the second is rejected.
\<close>

lemma lexer_at_label_tok:
  "token_type (fst (Lookahead lexer_at_label)) = kIdentifier"
  by code_simp

theorem at_most_one_definition_witness:
  "ParseProgram no_floats [(lexer_at_label, LabelDecl ''a'')] plugin_start = Some after_first_label
   \<and> ''a'' \<in> dom (labels after_first_label) \<union> dom (constants after_first_label)
   \<and> token_type (fst (Lookahead lexer_at_label)) \<noteq> kInvalid
   \<and> (\<exists>e. error (owner (OnLabelDecl ''a'' (with_lexer lexer_at_label after_first_label))) = Some e
          \<and> message e = ''Label/Constant a is already defined'')
   \<and> labels (OnLabelDecl ''a'' (with_lexer lexer_at_label after_first_label)) = labels after_first_label
   \<and> constants (OnVarDecl ''a'' (with_lexer lexer_at_label after_first_label)) = constants after_first_label"
proof -
  have h: "ParseProgram no_floats [(lexer_at_label, LabelDecl ''a'')] plugin_start = Some after_first_label"
    by (simp add: plugin_start_def initial_plugin_def ParseState_init_def after_first_label_def
        with_lexer_def GekkoIRPlugin_init_def)
  have n: "''a'' \<in> dom (labels after_first_label) \<union> dom (constants after_first_label)"
    by (simp add: after_first_label_def OnLabelDecl_def with_lexer_def plugin_start_def
        initial_plugin_def GekkoIRPlugin_init_def)
  have t: "token_type (fst (Lookahead lexer_at_label)) \<noteq> kInvalid"
    by (simp add: lexer_at_label_tok)
  have h': "ParseProgram no_floats [(lexer_at_label, LabelDecl ''a'')]
        (initial_plugin ''a:'' 0x80000000 RelAddrDoublePass kByte 0) = Some after_first_label"
    using h by (simp add: plugin_start_def)
  show ?thesis
    using h n t at_most_one_definition[OF h']
    by (auto simp del: Un_iff)
qed

section \<open>The fixup phase (C8)\<close>

lemma resolvable_simps [simp]:
  "resolvable ls cs (FLiteral x)"
  "resolvable ls cs (FSymbolResolve s a src e) \<longleftrightarrow> ls s \<noteq> None \<or> cs s \<noteq> None"
  "resolvable ls cs (FBinaryEvaluator ev l r) \<longleftrightarrow> resolvable ls cs l \<and> resolvable ls cs r"
  "resolvable ls cs (FUnaryEvaluator uev f) \<longleftrightarrow> resolvable ls cs f"
  "resolvable ls cs (FAbsoluteAddressConv ia f) \<longleftrightarrow> resolvable ls cs f"
  by (auto simp add: resolvable_def)




lemma write_fixup_simps [simp]:
  "labels (write_fixup i v err p) = labels p"
  "constants (write_fixup i v err p) = constants p"
  "error (owner (write_fixup i v err p)) = err"
  "operand_fixups (write_fixup i v err p) = operand_fixups p"
  "length (operand_pool (output_result (write_fixup i v err p))) = length (operand_pool (output_result p))"
  "j \<noteq> i \<Longrightarrow> operand_pool (output_result (write_fixup i v err p)) ! j = operand_pool (output_result p) ! j"
  "i < length (operand_pool (output_result p)) \<Longrightarrow>
     snd (operand_pool (output_result (write_fixup i v err p)) ! i) = v"
  by (simp_all add: write_fixup_def Let_def)




lemma AddSymbolResolve_top:
  "fixup_stack (AddSymbolResolve symb absolute p) =
     FSymbolResolve symb absolute (CurrentAddress p)
       \<lparr> message = ''Unresolved symbol '' @ [CHR 0x27] @ symb @ [CHR 0x27],
         error_line = CurrentLine (lexer (owner p)),
         line = LineNumber (lexer (owner p)),
         col = ColNumber (lexer (owner p)),
         len = length symb \<rparr> # fixup_stack p"
  by (simp add: AddSymbolResolve_def CurrentAddress_def Let_def)



text \<open>
  The phase returns whenever the pool has an entry for every fixup and no evaluator can
  fail.
\<close>

lemma run_fixup_total:
  "total_fixup f \<Longrightarrow> run_fixup ord ls cs f err \<noteq> None"
proof (induction f arbitrary: err)
  case (FLiteral x)
  show ?case by simp
next
  case (FSymbolResolve s a src e)
  show ?case by (simp split: option.splits)
next
  case (FBinaryEvaluator ev l r)
  have ev: "\<And>a b. \<exists>v. ev a b = Some v"
    and tl: "total_fixup l" and tr: "total_fixup r"
    using FBinaryEvaluator.prems by auto
  show ?case
  proof (cases ord)
    case True
    obtain rv e1 where r: "run_fixup ord ls cs r err = Some (rv, e1)"
      using FBinaryEvaluator.IH(2)[OF tr, of err] by auto
    obtain lv e2 where l: "run_fixup ord ls cs l e1 = Some (lv, e2)"
      using FBinaryEvaluator.IH(1)[OF tl, of e1] by auto
    obtain v where "ev lv rv = Some v" using ev by blast
    then show ?thesis using True r l by simp
  next
    case False
    obtain lv e1 where l: "run_fixup ord ls cs l err = Some (lv, e1)"
      using FBinaryEvaluator.IH(1)[OF tl, of err] by auto
    obtain rv e2 where r: "run_fixup ord ls cs r e1 = Some (rv, e2)"
      using FBinaryEvaluator.IH(2)[OF tr, of e1] by auto
    obtain v where "ev lv rv = Some v" using ev by blast
    then show ?thesis using False r l by simp
  qed
next
  case (FUnaryEvaluator ev s)
  have ev: "\<And>a. \<exists>v. ev a = Some v" and ts: "total_fixup s"
    using FUnaryEvaluator.prems by auto
  obtain sv e1 where s: "run_fixup ord ls cs s err = Some (sv, e1)"
    using FUnaryEvaluator.IH[OF ts, of err] by auto
  obtain v where "ev sv = Some v" using ev by blast
  then show ?case using s by simp
next
  case (FAbsoluteAddressConv a s)
  then obtain sv e1 where s: "run_fixup ord ls cs s err = Some (sv, e1)"
    by fastforce
  then show ?case by simp
qed

lemma RunFixups_from_total:
  "\<forall>f\<in>set fs. total_fixup f \<Longrightarrow> i + length fs \<le> length (operand_pool (output_result p)) \<Longrightarrow>
   RunFixups_from ord i fs p \<noteq> None"
proof (induction fs arbitrary: i p)
  case Nil
  then show ?case by simp
next
  case (Cons f fs)
  obtain v err where r: "run_fixup ord (labels p) (constants p) f (error (owner p)) = Some (v, err)"
    using run_fixup_total[of f ord "labels p" "constants p" "error (owner p)"] Cons.prems(1)
    by auto
  have "RunFixups_from ord (i + 1) fs (write_fixup i v err p) \<noteq> None"
    using Cons.IH[of "i + 1" "write_fixup i v err p"] Cons.prems by simp
  then show ?case
    using r Cons.prems(2) by (auto simp add: Let_def)
qed




section \<open>High half of a symbol (C1)\<close>

text \<open>
  Claim C1 says that \<open>S@ha\<close> is \<open>((S + 0x8000) >> 16) & 0xFFFF\<close>, the high half adjusted
  for the sign of the low half, in both modes. \<open>OnHiaddr\<close> shifts and masks without adding
  \<open>0x8000\<close>. For the label \<open>s\<close> at \<open>0x8000\<close> the adjusted high half is 1; the generator
  gives 0 in an instruction operand and 0 in a \<open>.4byte\<close> directive.
\<close>

theorem hiaddr_counterexample:
  "hiaddr_double_pass False ''s'' plugin_start labels_s no_constants = Some (0, None)
   \<and> hiaddr_single_pass ''s'' plugin_4byte = Some (StackU32 [0])
   \<and> spec_ha 0x8000 = 1
   \<and> hiaddr_double_pass False ''s'' plugin_start labels_s no_constants
       \<noteq> Some (spec_ha 0x8000, None)
   \<and> hiaddr_single_pass ''s'' plugin_4byte \<noteq> Some (StackU32 [spec_ha 0x8000])"
  by (simp add: hiaddr_double_pass_def hiaddr_single_pass_def OnHiaddr_def AddSymbolResolve_def
      AddLiteral_def AddBinaryEvaluator_def Let_def labels_s_def no_constants_def spec_ha_def
      plugin_4byte_def push_symbol_abs_def LookupLabel_def LookupVar_def PushCast_def
      PushCast_stack_def EvalOperatorAbs_def EvalOperatorAbs_stack_def visit_op_def
      binary_op_abs_def)

lemma hiaddr_double:
  assumes "symbol_u32 ls cs S = Some v"
  shows "hiaddr_double_pass ord S p ls cs = Some (drop_bit 16 v AND 0xFFFF, None)"
  using assms
  by (cases ord)
    (auto simp add: hiaddr_double_pass_def OnHiaddr_def AddSymbolResolve_def
      AddLiteral_def AddBinaryEvaluator_def Let_def symbol_u32_def split: option.splits)

lemma ucast_up_down_32: "(ucast (ucast (a::u32) :: u64) :: u32) = a"
  by (rule bit_eqI) (auto simp add: bit_simps dest: bit_imp_le_length)
lemma ucast_up_down_16: "(ucast (ucast (a::u32) :: u64) :: u16) = ucast a"
  by (rule bit_eqI) (auto simp add: bit_simps dest: bit_imp_le_length)
lemma ucast_up_down_8: "(ucast (ucast (a::u32) :: u64) :: u8) = ucast a"
  by (rule bit_eqI) (auto simp add: bit_simps dest: bit_imp_le_length)

lemmas hiaddr_single_defs =
  hiaddr_single_pass_def OnHiaddr_def push_symbol_abs_def LookupLabel_def LookupVar_def
  PushCast_def PushCast_stack_def EvalOperatorAbs_def EvalOperatorAbs_stack_def visit_op_def
  binary_op_abs_def symbol_u64_def

lemma hiaddr_single_u8:
  assumes "symbol_u64 (labels p) (constants p) S = Some sv" "eval_stack p = StackU8 vec"
  shows "hiaddr_single_pass S p = Some (StackU8 (vec @ [0]))"
  using assms by (auto simp add: hiaddr_single_defs split: option.splits)

lemma hiaddr_single_u16:
  assumes "symbol_u64 (labels p) (constants p) S = Some sv" "eval_stack p = StackU16 vec"
  shows "hiaddr_single_pass S p = Some (StackU16 (vec @ [0]))"
  using assms by (auto simp add: hiaddr_single_defs split: option.splits)

lemma hiaddr_single_u32:
  assumes "symbol_u64 (labels p) (constants p) S = Some sv" "eval_stack p = StackU32 vec"
  shows "hiaddr_single_pass S p = Some (StackU32 (vec @ [drop_bit 16 (ucast sv) AND 0xFFFF]))"
  using assms by (auto simp add: hiaddr_single_defs ucast_up_down_32 split: option.splits)

lemma hiaddr_single_u64:
  assumes "symbol_u64 (labels p) (constants p) S = Some sv" "eval_stack p = StackU64 vec"
  shows "hiaddr_single_pass S p = Some (StackU64 (vec @ [drop_bit 16 sv AND 0xFFFF]))"
  using assms by (auto simp add: hiaddr_single_defs split: option.splits)


text \<open>
  What \<open>OnHiaddr\<close> computes for a defined symbol: \<open>(S >> 16) & 0xFFFF\<close>. In an
  instruction operand \<open>S\<close> is the 32-bit value the symbol has in the fixup phase. In a
  directive \<open>S\<close> is first converted to the element type of the directive and the shift
  is done at that width.
\<close>

lemma hiaddr_value:
  "(symbol_u32 ls cs S = Some v \<longrightarrow>
      hiaddr_double_pass ord S p ls cs = Some (drop_bit 16 v AND 0xFFFF, None))
   \<and> (symbol_u64 (labels p) (constants p) S = Some sv \<longrightarrow>
        (eval_stack p = StackU32 vec32 \<longrightarrow>
           hiaddr_single_pass S p = Some (StackU32 (vec32 @ [drop_bit 16 (ucast sv) AND 0xFFFF])))
      \<and> (eval_stack p = StackU64 vec64 \<longrightarrow>
           hiaddr_single_pass S p = Some (StackU64 (vec64 @ [drop_bit 16 sv AND 0xFFFF])))
      \<and> (eval_stack p = StackU16 vec16 \<longrightarrow>
           hiaddr_single_pass S p = Some (StackU16 (vec16 @ [0])))
      \<and> (eval_stack p = StackU8 vec8 \<longrightarrow>
           hiaddr_single_pass S p = Some (StackU8 (vec8 @ [0]))))"
proof (intro conjI impI)
  assume "symbol_u32 ls cs S = Some v"
  then show "hiaddr_double_pass ord S p ls cs = Some (drop_bit 16 v AND 0xFFFF, None)"
    by (rule hiaddr_double)
next
  assume "symbol_u64 (labels p) (constants p) S = Some sv" "eval_stack p = StackU32 vec32"
  then show "hiaddr_single_pass S p = Some (StackU32 (vec32 @ [drop_bit 16 (ucast sv) AND 0xFFFF]))"
    by (rule hiaddr_single_u32)
next
  assume "symbol_u64 (labels p) (constants p) S = Some sv" "eval_stack p = StackU64 vec64"
  then show "hiaddr_single_pass S p = Some (StackU64 (vec64 @ [drop_bit 16 sv AND 0xFFFF]))"
    by (rule hiaddr_single_u64)
next
  assume "symbol_u64 (labels p) (constants p) S = Some sv" "eval_stack p = StackU16 vec16"
  then show "hiaddr_single_pass S p = Some (StackU16 (vec16 @ [0]))"
    by (rule hiaddr_single_u16)
next
  assume "symbol_u64 (labels p) (constants p) S = Some sv" "eval_stack p = StackU8 vec8"
  then show "hiaddr_single_pass S p = Some (StackU8 (vec8 @ [0]))"
    by (rule hiaddr_single_u8)
qed

text \<open>The label \<open>s\<close> at \<open>0x12348000\<close>: the high half is \<open>0x1234\<close>.\<close>

lemma hiaddr_value_example:
  "symbol_u32 labels_hi no_constants ''s'' = Some 0x12348000
   \<and> hiaddr_double_pass False ''s'' plugin_start labels_hi no_constants = Some (0x1234, None)
   \<and> symbol_u64 (labels plugin_hi) (constants plugin_hi) ''s'' = Some 0x12348000
   \<and> eval_stack plugin_hi = StackU32 []
   \<and> hiaddr_single_pass ''s'' plugin_hi = Some (StackU32 [0x1234])
   \<and> hiaddr_single_pass ''s'' (plugin_hi\<lparr> eval_stack := StackU64 [] \<rparr>) = Some (StackU64 [0x1234])
   \<and> hiaddr_single_pass ''s'' (plugin_hi\<lparr> eval_stack := StackU16 [] \<rparr>) = Some (StackU16 [0])
   \<and> hiaddr_single_pass ''s'' (plugin_hi\<lparr> eval_stack := StackU8 [] \<rparr>) = Some (StackU8 [0])"
proof -
  have a: "symbol_u32 labels_hi no_constants ''s'' = Some 0x12348000"
    by (simp add: symbol_u32_def labels_hi_def)
  have b: "symbol_u64 (labels plugin_hi) (constants plugin_hi) ''s'' = Some 0x12348000"
    by (simp add: symbol_u64_def plugin_hi_def labels_hi_def)
  have b': "symbol_u64 (labels (plugin_hi\<lparr> eval_stack := st \<rparr>))
              (constants (plugin_hi\<lparr> eval_stack := st \<rparr>)) ''s'' = Some 0x12348000" for st
    using b by simp
  have s: "eval_stack plugin_hi = StackU32 []"
    by (simp add: plugin_hi_def)
  show ?thesis
    using a b s
      hiaddr_value[of labels_hi no_constants "''s''" "0x12348000" False plugin_start
        "0x12348000" "[]" "[]" "[]" "[]"]
      hiaddr_value[of labels_hi no_constants "''s''" "0x12348000" False plugin_hi
        "0x12348000" "[]" "[]" "[]" "[]"]
      hiaddr_value[of labels_hi no_constants "''s''" "0x12348000" False
        "plugin_hi\<lparr> eval_stack := StackU64 [] \<rparr>" "0x12348000" "[]" "[]" "[]" "[]"]
      hiaddr_value[of labels_hi no_constants "''s''" "0x12348000" False
        "plugin_hi\<lparr> eval_stack := StackU16 [] \<rparr>" "0x12348000" "[]" "[]" "[]" "[]"]
      hiaddr_value[of labels_hi no_constants "''s''" "0x12348000" False
        "plugin_hi\<lparr> eval_stack := StackU8 [] \<rparr>" "0x12348000" "[]" "[]" "[]" "[]"]
    by (simp add: b')
qed

section \<open>C6: parentheses in a directive\<close>

lemmas plugin_eval_defs =
  ParseWithPlugin_def PostParseAction_def RunFixups_def plugin_at_base_def GekkoIRPlugin_init_def
  ParseState_init_def OnDirectivePre_def OnDirectivePost_def OnTerminal_def OnCloseParen_def
  OnResolvedExprPost_def EvalTerminalAbs_def EvalTerminalAbs_int_def is_value_terminal_def
  EvalToken_def eval_integral_def dec_step_def char_code_def token_5_def PushCast_def
  PushCast_stack_def EvalOperatorAbs_def EvalOperatorAbs_stack_def visit_op_def binary_op_abs_def
  CurrentAddress_def active_block_def BlockEndAddress_def IRBlock_at_def AddBytes_def
  append_bytes_def GetChunk_Byte_def set_active_block_def be_bytes_def result_blocks_def Let_def

text \<open>
  Claim C6 says that round parentheses only group, so that \<open>(E)\<close> and \<open>E\<close> have the same
  value in both modes. In the double-pass mode \<open>OnCloseParen\<close> acts on \<open>kRelConv\<close> only. In
  the single-pass mode it does not look at the kind of parenthesis: it pushes the current
  address and subtracts. At the base address \<open>0x80000000\<close> the line \<open>.4byte (5)\<close> therefore
  emits the bytes \<open>80 00 00 05\<close>, the line \<open>.4byte 5\<close> emits \<open>00 00 00 05\<close>.
\<close>

theorem paren_in_directive_subtracts_address:
  "result_blocks (ParseWithPlugin no_floats False ''.4byte (5)'' calls_4byte_paren plugin_at_base)
     = Some [\<lparr> chunks = [ByteChunk [0x80, 0x00, 0x00, 0x05]], block_address = 0x80000000 \<rparr>]
   \<and> result_blocks (ParseWithPlugin no_floats False ''.4byte 5'' calls_4byte_plain plugin_at_base)
     = Some [\<lparr> chunks = [ByteChunk [0x00, 0x00, 0x00, 0x05]], block_address = 0x80000000 \<rparr>]"
  apply (simp add: calls_4byte_paren_def calls_4byte_plain_def plugin_eval_defs)
  apply code_simp
  done

section \<open>C5: the character \<open>#\<close> in the lexer\<close>

text \<open>
  Claim C5 says that the lexer drops a \<open>#\<close> and the rest of its line. \<open>LexSingle\<close> has no case
  for \<open>#\<close>: after the white space it falls through to \<open>single_char_token\<close>, which knows no
  such character, and the token is \<open>kInvalid\<close> with the reason \<open>Unrecognized character\<close>. So
  the token after \<open>nop\<close> in \<open>nop # c\<close> is invalid, where the line \<open>nop\<close> alone ends with
  \<open>kEof\<close>.
\<close>

theorem hash_is_lexed_as_invalid:
  "fst (LexSingle (Lexer_init ''# c'')) =
     \<lparr> token_type = kInvalid, token_val = ''#'', invalid_reason = ''Unrecognized character'',
       invalid_region = \<lparr> i_begin = 0, i_len = 1 \<rparr> \<rparr>
   \<and> token_type (fst (LexSingle (snd (LexSingle (Lexer_init ''nop # c''))))) = kInvalid
   \<and> token_type (fst (LexSingle (snd (LexSingle (Lexer_init ''nop''))))) = kEof"
  by code_simp

section \<open>C10: \<open>LookaheadTagRef\<close>\<close>

lemma LookaheadRef_nonempty:
  "lexed_tokens lx \<noteq> [] \<Longrightarrow> snd (LookaheadRef lx) = lx"
  by (simp add: LookaheadRef_def)

text \<open>
  With a token in the buffer \<open>LookaheadRef\<close> lexes nothing, so a loop that waits for more
  tokens than are buffered makes no progress, whatever the fuel.
\<close>

lemma LookaheadTagRef_loop_stuck:
  "lexed_tokens lx \<noteq> [] \<Longrightarrow> length (lexed_tokens lx) < num_fwd
     \<Longrightarrow> LookaheadTagRef_loop fuel num_fwd lx = None"
  by (induction fuel) (simp_all add: LookaheadRef_nonempty)

lemma one_buffered:
  "length (lexed_tokens (snd (Lookahead (Lexer_init ''a b c'')))) = 1"
  by code_simp

lemma fresh_one:
  "length (lexed_tokens (snd (LookaheadRef (Lexer_init ''a b c'')))) = 1"
  by code_simp

text \<open>
  Claim C10 says that \<open>LookaheadTagRef n\<close> returns and reads the buffer within its bounds,
  for every state of the lexer and every \<open>n\<close>. On the input \<open>a b c\<close>: with one token
  buffered, \<open>LookaheadTagRef 2\<close> is still in its loop after any number of rounds; on the
  fresh lexer \<open>LookaheadTagRef 0\<close> reads index 0 of an empty buffer and
  \<open>LookaheadTagRef 1\<close> reads index 1 of a buffer of one token.
\<close>

theorem LookaheadTagRef_unsafe:
  "LookaheadTagRef fuel 2 (snd (Lookahead (Lexer_init ''a b c''))) = StillLooping
   \<and> LookaheadTagRef (Suc fuel) 0 (Lexer_init ''a b c'') = OutOfBounds
   \<and> LookaheadTagRef (Suc (Suc fuel)) 1 (Lexer_init ''a b c'') = OutOfBounds"
proof (intro conjI)
  have "lexed_tokens (snd (Lookahead (Lexer_init ''a b c''))) \<noteq> []"
    using one_buffered by fastforce
  then have "LookaheadTagRef_loop fuel 2 (snd (Lookahead (Lexer_init ''a b c''))) = None"
    using one_buffered by (intro LookaheadTagRef_loop_stuck) simp_all
  then show "LookaheadTagRef fuel 2 (snd (Lookahead (Lexer_init ''a b c''))) = StillLooping"
    by (simp add: LookaheadTagRef_def)
  show "LookaheadTagRef (Suc fuel) 0 (Lexer_init ''a b c'') = OutOfBounds"
    by (simp add: LookaheadTagRef_def Lexer_init_def)
  show "LookaheadTagRef (Suc (Suc fuel)) 1 (Lexer_init ''a b c'') = OutOfBounds"
    using fresh_one by (simp add: LookaheadTagRef_def Lexer_init_def)
qed

section \<open>Forward references (C4)\<close>

text \<open>
  No callout but \<open>OnOperandPost\<close> touches the saved fixups or the operand pool.
\<close>

lemma same_pool_refl [simp]: "same_pool p p"
  by (simp add: same_pool_def)

lemma same_pool_trans: "same_pool p q \<Longrightarrow> same_pool q r \<Longrightarrow> same_pool p r"
  by (simp add: same_pool_def)

lemma sp_plugin_error [simp]: "same_pool p (plugin_error msg p)"
  by (simp add: same_pool_def plugin_error_def)

lemma sp_set_active_block [simp]: "same_pool p (set_active_block b p)"
  by (simp add: same_pool_def set_active_block_def)

lemma sp_append_bytes [simp]: "same_pool p (append_bytes bs p)"
  by (simp add: same_pool_def append_bytes_def set_active_block_def Let_def split: prod.splits)

lemma sp_append_pad [simp]: "same_pool p (append_pad n p)"
  by (simp add: same_pool_def append_pad_def set_active_block_def Let_def split: prod.splits)

lemma sp_append_inst [simp]: "same_pool p (append_inst i p)"
  by (simp add: same_pool_def append_inst_def set_active_block_def Let_def split: prod.splits)

lemma sp_AddLiteral [simp]: "same_pool p (AddLiteral l p)"
  by (simp add: same_pool_def AddLiteral_def)

lemma sp_AddSymbolResolve [simp]: "same_pool p (AddSymbolResolve s a p)"
  by (simp add: same_pool_def AddSymbolResolve_def Let_def)

lemma sp_StartBlock [simp]: "same_pool p (StartBlock a p)"
  by (simp add: same_pool_def StartBlock_def)







lemma sp_FinishInstruction [simp]: "same_pool p (FinishInstruction p)"
  by (simp add: same_pool_def FinishInstruction_def append_inst_def set_active_block_def Let_def split: prod.splits)

lemma sp_StartInstruction [simp]: "same_pool p (StartInstruction i e p)"
  by (simp add: same_pool_def StartInstruction_def)





lemma sp_foldl_AddBytes: "same_pool p (foldl (\<lambda>q val. AddBytes val q) p vec)"
proof (induction vec arbitrary: p)
  case Nil
  show ?case by simp
next
  case (Cons v vec)
  have "same_pool p (AddBytes v p)"
    by (simp add: AddBytes_def)
  then show ?case
    using Cons[of "AddBytes v p"] by (auto intro: same_pool_trans)
qed

lemma sp_eval_stack_upd [simp]: "same_pool p (q\<lparr> eval_stack := s \<rparr>) = same_pool p q"
  by (simp add: same_pool_def)

lemma sp_OnResolvedExprPost [simp]: "same_pool p (OnResolvedExprPost p)"
  by (auto simp add: OnResolvedExprPost_def sp_foldl_AddBytes split: EvalStack.splits)

lemma sp_OnDirectivePre [simp]: "same_pool p (OnDirectivePre d p)"
  by (simp add: same_pool_def OnDirectivePre_def)











lemma sp_OnLabelDecl [simp]: "same_pool p (OnLabelDecl name p)"
  by (simp add: OnLabelDecl_def same_pool_def plugin_error_def)

lemma sp_OnVarDecl [simp]: "same_pool p (OnVarDecl name p)"
  by (simp add: OnVarDecl_def same_pool_def plugin_error_def)

text \<open>
  Parsing only appends to the saved fixups, and each new pool entry has the value \<open>0\<close>.
\<close>

lemma pool_grows_refl [simp]: "pool_grows p p"
  by (simp add: pool_grows_def)




lemma grows_with_lexer [simp]:
  "pool_grows (p\<lparr> owner := (owner p)\<lparr> lexer := lx \<rparr> \<rparr>) p' = pool_grows p p'"
  by (simp add: pool_grows_def pool_values_def)















end
